theory Spec2Isabelle
  imports Complex_Main "HOL-Library.Multiset" "HOL-Library.Sublist" "HOL-Library.Product_Lexorder"
begin

section \<open>Data model\<close>

text \<open>
  The back end is a set of Express route handlers over two Mongoose collections.
  Object ids are their 24-digit hexadecimal strings, instants are milliseconds since
  the epoch (the time value of a JavaScript Date).  An amount is the rational value of
  the double-precision number that the schema stores; amounts are compared exactly,
  and they are added up by the database's \<open>$sum\<close>, whose result is again a double
  (\<open>sum_acc\<close> below).  A collection is the list of its documents in insertion
  order.  The timestamps that Mongoose maintains on its own (createdAt, updatedAt)
  are not part of the model.
\<close>

type_synonym oid = string

text \<open>The Expense schema (models/Expense.js).\<close>

record expense =
  e_id :: oid
  userId :: oid
  amount :: rat
  category :: string
  description :: string
  date :: int
  paymentMethod :: string

definition categories :: "string list" where
  "categories = [''Food & Dining'', ''Transportation'', ''Shopping'', ''Entertainment'',
     ''Bills & Utilities'', ''Healthcare'', ''Education'', ''Travel'', ''Personal'', ''Other'']"

definition paymentMethods :: "string list" where
  "paymentMethods = [''Cash'', ''Credit Card'', ''Debit Card'', ''UPI'', ''Net Banking'', ''Other'']"

text \<open>
  Modelled from the spec: the User schema (models/User.js is not among the sources).
  Section 3 of the specification gives its fields: name, email (unique, lowercase),
  password (the stored hash), and the optional bio, phone and avatar.
\<close>

record user =
  u_id :: oid
  name :: string
  email :: string
  password :: string
  bio :: "string option"
  phone :: "string option"
  avatar :: "string option"

record db =
  users :: "user list"
  expenses :: "expense list"

subsection \<open>Requests\<close>

text \<open>
  A JSON amount is a number, given by the value of the double that it is read as, or a
  string (the form posts the text of its input field).
  Every other body field and every query parameter is a string or is absent
  (\<open>None\<close> is JavaScript's \<open>undefined\<close>).
\<close>

datatype num_in = NumLit rat | NumStr string

record expense_body =
  b_userId :: "string option"
  b_amount :: "num_in option"
  b_category :: "string option"
  b_description :: "string option"
  b_date :: "string option"
  b_paymentMethod :: "string option"

record expense_query =
  q_search :: "string option"
  q_category :: "string option"
  q_startDate :: "string option"
  q_endDate :: "string option"
  q_minAmount :: "string option"
  q_maxAmount :: "string option"

record profile_body =
  p_name :: "string option"
  p_email :: "string option"
  p_bio :: "string option"
  p_phone :: "string option"
  p_avatar :: "string option"

text \<open>The body, the query and the profile body with no field set.\<close>

definition no_body :: expense_body where
  "no_body = \<lparr>b_userId = None, b_amount = None, b_category = None, b_description = None,
              b_date = None, b_paymentMethod = None\<rparr>"

definition no_query :: expense_query where
  "no_query = \<lparr>q_search = None, q_category = None, q_startDate = None, q_endDate = None,
               q_minAmount = None, q_maxAmount = None\<rparr>"

definition no_profile :: profile_body where
  "no_profile = \<lparr>p_name = None, p_email = None, p_bio = None, p_phone = None, p_avatar = None\<rparr>"

text \<open>
  The routes of the two routers.  Each request carries the id of the user that the
  \<open>protect\<close> middleware attached to it (\<open>req.user._id\<close>): the handlers run only
  after that middleware has accepted the bearer token.
\<close>

datatype request =
    GetProfile oid
  | PutProfile oid profile_body
  | GetExpenses oid expense_query
  | GetStats oid
  | PostExpense oid expense_body
  | GetExpense oid string
  | PutExpense oid string expense_body
  | DeleteExpense oid string

subsection \<open>Responses\<close>

record stats =
  totalExpenses :: rat
  byCategory :: "(string \<times> rat \<times> nat) list"
  monthlyExpenses :: "((int \<times> nat) \<times> rat \<times> nat) list"

datatype body =
    Message string
  | ValidationErrors "string list"
  | ExpenseDoc expense
  | ExpenseDocs "expense list"
  | StatsDoc stats
  | Object "(string \<times> string) list"
  | Null

datatype response = Response nat body

fun status :: "response \<Rightarrow> nat" where
  "status (Response s b) = s"

subsection \<open>The platform\<close>

text \<open>
  The handlers call into the JavaScript runtime, express-validator, Mongoose and the
  database's regular-expression engine.  Those functions whose result depends on a
  grammar, on the library version or on the server's time zone are fields of the
  record \<open>lib\<close>, and every handler takes such a record: a theorem stated for an
  arbitrary \<open>lib\<close> holds whatever these functions compute.
\<close>

record lib =
  isFloatMin0 :: "string \<Rightarrow> bool"
    \<comment> \<open>validator \<open>isFloat(str, {min: 0})\<close>\<close>
  castNumberStr :: "string \<Rightarrow> rat option"
    \<comment> \<open>Mongoose's Number cast of a string; \<open>None\<close> when the document is then invalid\<close>
  isISO8601 :: "string \<Rightarrow> bool"
  castDateStr :: "string \<Rightarrow> int option"
    \<comment> \<open>Mongoose's Date cast of a string; \<open>None\<close> is a cast error\<close>
  newDate :: "string \<Rightarrow> int option"
    \<comment> \<open>\<open>new Date(s)\<close>; \<open>None\<close> is the Invalid Date\<close>
  parseFloat :: "string \<Rightarrow> rat option"
    \<comment> \<open>\<open>None\<close> is NaN\<close>
  regexI :: "string \<Rightarrow> (string \<Rightarrow> bool) option"
    \<comment> \<open>\<open>{$regex: p, $options: 'i'}\<close> as a test on strings; \<open>None\<close> when \<open>p\<close> does not compile\<close>
  isEmail :: "string \<Rightarrow> bool"
  castObjectId :: "string \<Rightarrow> oid option"
    \<comment> \<open>Mongoose's ObjectId cast of a route parameter; \<open>None\<close> is a cast error\<close>
  getMonth :: "int \<Rightarrow> int"
    \<comment> \<open>\<open>Date.prototype.getMonth\<close> on a time value\<close>
  setMonth :: "int \<Rightarrow> int \<Rightarrow> int"
    \<comment> \<open>the time value after \<open>Date.prototype.setMonth\<close>\<close>
  sum_acc :: "rat list \<Rightarrow> rat"
    \<comment> \<open>the accumulator \<open>$sum\<close> of the database: the sum, as a double, of the doubles of a
       group in the order in which the documents are read\<close>

text \<open>What a create request takes from its surroundings: the clock and the fresh id.\<close>

record env =
  now :: int
  newId :: oid

subsection \<open>Strings\<close>

text \<open>
  Strings are byte strings.  \<open>trim\<close> removes the ASCII white space at both ends, as
  validator's \<open>trim()\<close> does on ASCII text.
\<close>

definition is_space :: "char \<Rightarrow> bool" where
  "is_space c = (c \<in> set [CHR '' '', CHR 0x09, CHR 0x0A, CHR 0x0B, CHR 0x0C, CHR 0x0D])"

definition trim :: "string \<Rightarrow> string" where
  "trim s = rev (dropWhile is_space (rev (dropWhile is_space s)))"

text \<open>\<open>x || y\<close> for a string or \<open>undefined\<close> \<open>x\<close>: the empty string is falsy.\<close>

definition truthy :: "string option \<Rightarrow> bool" where
  "truthy x = (case x of None \<Rightarrow> False | Some s \<Rightarrow> s \<noteq> [])"

definition str_or :: "string option \<Rightarrow> string \<Rightarrow> string" where
  "str_or x y = (case x of None \<Rightarrow> y | Some s \<Rightarrow> if s \<noteq> [] then s else y)"

text \<open>validator's \<open>notEmpty()\<close>: an absent field is validated as the empty string.\<close>

definition notEmpty :: "string option \<Rightarrow> bool" where
  "notEmpty x = (case x of None \<Rightarrow> False | Some s \<Rightarrow> s \<noteq> [])"

section \<open>Expense routes\<close>

subsection \<open>Lookup, save and delete\<close>

definition findById :: "expense list \<Rightarrow> oid \<Rightarrow> expense option" where
  "findById es i = find (\<lambda>e. e_id e = i) es"

text \<open>\<open>save()\<close> of a loaded document replaces the stored document of the same id.\<close>

fun save_doc :: "expense \<Rightarrow> expense list \<Rightarrow> expense list" where
  "save_doc d [] = []"
| "save_doc d (e # es) = (if e_id e = e_id d then d # es else e # save_doc d es)"

fun deleteOne :: "oid \<Rightarrow> expense list \<Rightarrow> expense list" where
  "deleteOne i [] = []"
| "deleteOne i (e # es) = (if e_id e = i then es else e # deleteOne i es)"

text \<open>
  The schema's validators, run by \<open>create\<close> and \<open>save\<close>: the amount is not negative,
  category and payment method are of their enumerations, the description is there.
\<close>

definition schema_valid :: "expense \<Rightarrow> bool" where
  "schema_valid e = (0 \<le> amount e \<and> category e \<in> set categories \<and> description e \<noteq> []
     \<and> paymentMethod e \<in> set paymentMethods)"

text \<open>
  What holds of the collection as the routes write it: the ids are distinct, and
  every document has passed the schema with its description trimmed.
\<close>

definition stored_ok :: "expense \<Rightarrow> bool" where
  "stored_ok e = (schema_valid e \<and> trim (description e) = description e)"

definition wf_db :: "db \<Rightarrow> bool" where
  "wf_db d = (distinct (map e_id (expenses d)) \<and> list_all stored_ok (expenses d))"

definition cast_number :: "lib \<Rightarrow> num_in \<Rightarrow> rat option" where
  "cast_number L a = (case a of NumLit r \<Rightarrow> Some r | NumStr s \<Rightarrow> castNumberStr L s)"

definition isFloat0 :: "lib \<Rightarrow> num_in \<Rightarrow> bool" where
  "isFloat0 L a = (case a of NumLit r \<Rightarrow> 0 \<le> r | NumStr s \<Rightarrow> isFloatMin0 L s)"

definition server_error :: response where
  "server_error = Response 500 (Message ''Server error'')"

subsection \<open>GET /api/expenses/:id\<close>

definition get_expense :: "lib \<Rightarrow> db \<Rightarrow> oid \<Rightarrow> string \<Rightarrow> response" where
  "get_expense L d uid idp =
     (case castObjectId L idp of
        None \<Rightarrow> server_error
      | Some i \<Rightarrow>
          (case findById (expenses d) i of
             None \<Rightarrow> Response 404 (Message ''Expense not found'')
           | Some e \<Rightarrow>
               if userId e \<noteq> uid then Response 401 (Message ''Not authorized'')
               else Response 200 (ExpenseDoc e)))"

subsection \<open>PUT /api/expenses/:id\<close>

text \<open>The validation chains of the route, and the body as their sanitizers leave it.\<close>

definition validate_update :: "lib \<Rightarrow> expense_body \<Rightarrow> string list" where
  "validate_update L b =
     (case b_amount b of None \<Rightarrow> []
      | Some a \<Rightarrow> if isFloat0 L a then [] else [''Amount must be a positive number'']) @
     (case b_description b of None \<Rightarrow> []
      | Some s \<Rightarrow> if trim s \<noteq> [] then [] else [''Description cannot be empty'']) @
     (case b_date b of None \<Rightarrow> []
      | Some s \<Rightarrow> if isISO8601 L s then [] else [''Invalid date format''])"

definition sanitize_expense :: "expense_body \<Rightarrow> expense_body" where
  "sanitize_expense b = b\<lparr>b_description := map_option trim (b_description b)\<rparr>"

text \<open>
  The five assignments of the handler.  A value that Mongoose cannot cast to the
  field's type makes the document invalid, which \<open>save\<close> reports: the result is then
  \<open>None\<close>.  The schema trims a description that is assigned; that is left out,
  since the description of the body has been trimmed by the route's sanitizer, the
  stored one was trimmed when it was written, and trimming twice is trimming once
  (\<open>trim_idem\<close> below).
\<close>

definition assign_fields :: "lib \<Rightarrow> expense \<Rightarrow> expense_body \<Rightarrow> expense option" where
  "assign_fields L e b =
     (case (case b_amount b of None \<Rightarrow> Some (amount e) | Some a \<Rightarrow> cast_number L a) of
        None \<Rightarrow> None
      | Some a \<Rightarrow>
          (case (case b_date b of None \<Rightarrow> Some (date e)
                 | Some s \<Rightarrow> if s \<noteq> [] then castDateStr L s else Some (date e)) of
             None \<Rightarrow> None
           | Some t \<Rightarrow>
               Some (e\<lparr>amount := a,
                       category := str_or (b_category b) (category e),
                       description := str_or (b_description b) (description e),
                       date := t,
                       paymentMethod := str_or (b_paymentMethod b) (paymentMethod e)\<rparr>)))"

definition put_expense :: "lib \<Rightarrow> db \<Rightarrow> oid \<Rightarrow> string \<Rightarrow> expense_body \<Rightarrow> db \<times> response" where
  "put_expense L d uid idp b0 =
     (if validate_update L b0 \<noteq> [] then (d, Response 400 (ValidationErrors (validate_update L b0)))
      else
        let b = sanitize_expense b0 in
        (case castObjectId L idp of
           None \<Rightarrow> (d, server_error)
         | Some i \<Rightarrow>
             (case findById (expenses d) i of
                None \<Rightarrow> (d, Response 404 (Message ''Expense not found''))
              | Some e \<Rightarrow>
                  if userId e \<noteq> uid then (d, Response 401 (Message ''Not authorized''))
                  else
                    (case assign_fields L e b of
                       None \<Rightarrow> (d, server_error)
                     | Some e' \<Rightarrow>
                         if schema_valid e'
                         then (d\<lparr>expenses := save_doc e' (expenses d)\<rparr>, Response 200 (ExpenseDoc e'))
                         else (d, server_error)))))"

subsection \<open>DELETE /api/expenses/:id\<close>

definition delete_expense :: "lib \<Rightarrow> db \<Rightarrow> oid \<Rightarrow> string \<Rightarrow> db \<times> response" where
  "delete_expense L d uid idp =
     (case castObjectId L idp of
        None \<Rightarrow> (d, server_error)
      | Some i \<Rightarrow>
          (case findById (expenses d) i of
             None \<Rightarrow> (d, Response 404 (Message ''Expense not found''))
           | Some e \<Rightarrow>
               if userId e \<noteq> uid then (d, Response 401 (Message ''Not authorized''))
               else (d\<lparr>expenses := deleteOne (e_id e) (expenses d)\<rparr>,
                     Response 200 (Message ''Expense removed''))))"


subsection \<open>POST /api/expenses\<close>

definition validate_create :: "lib \<Rightarrow> expense_body \<Rightarrow> string list" where
  "validate_create L b =
     (if (case b_amount b of None \<Rightarrow> False | Some a \<Rightarrow> isFloat0 L a) then []
      else [''Amount must be a positive number'']) @
     (if notEmpty (b_category b) then [] else [''Category is required'']) @
     (if notEmpty (map_option trim (b_description b)) then [] else [''Description is required'']) @
     (case b_date b of None \<Rightarrow> []
      | Some s \<Rightarrow> if isISO8601 L s then [] else [''Invalid date format'']) @
     (if notEmpty (b_paymentMethod b) then [] else [''Payment method is required''])"

text \<open>A required string that is absent fails the schema as the empty string does.\<close>

definition str_of :: "string option \<Rightarrow> string" where
  "str_of x = (case x of None \<Rightarrow> [] | Some s \<Rightarrow> s)"

text \<open>
  The document that \<open>Expense.create\<close> builds: the owner is the requester, whatever
  the body says; \<open>date || Date.now()\<close> takes the clock when the date is absent or empty.
\<close>

definition new_expense :: "lib \<Rightarrow> env \<Rightarrow> oid \<Rightarrow> expense_body \<Rightarrow> expense option" where
  "new_expense L E uid b =
     (case b_amount b of
        None \<Rightarrow> None
      | Some a \<Rightarrow>
          (case cast_number L a of
             None \<Rightarrow> None
           | Some r \<Rightarrow>
               (case (case b_date b of None \<Rightarrow> Some (now E)
                      | Some s \<Rightarrow> if s \<noteq> [] then castDateStr L s else Some (now E)) of
                  None \<Rightarrow> None
                | Some t \<Rightarrow>
                    Some \<lparr>e_id = newId E, userId = uid, amount = r,
                          category = str_of (b_category b),
                          description = str_of (b_description b),
                          date = t,
                          paymentMethod = str_of (b_paymentMethod b)\<rparr>)))"

definition post_expense :: "lib \<Rightarrow> env \<Rightarrow> db \<Rightarrow> oid \<Rightarrow> expense_body \<Rightarrow> db \<times> response" where
  "post_expense L E d uid b0 =
     (if validate_create L b0 \<noteq> [] then (d, Response 400 (ValidationErrors (validate_create L b0)))
      else
        (case new_expense L E uid (sanitize_expense b0) of
           None \<Rightarrow> (d, server_error)
         | Some e \<Rightarrow>
             if schema_valid e \<and> findById (expenses d) (e_id e) = None
             then (d\<lparr>expenses := expenses d @ [e]\<rparr>, Response 201 (ExpenseDoc e))
             else (d, server_error)))"

subsection \<open>GET /api/expenses\<close>

text \<open>
  The query object that the handler builds, one optional condition for each key it
  may set.  Building fails (\<open>None\<close>) when a bound is the Invalid Date or NaN, which
  Mongoose refuses to cast, or when the pattern does not compile; the handler's
  \<open>catch\<close> answers 500 then.
\<close>

record mongo_query =
  m_userId :: oid
  m_description :: "(string \<Rightarrow> bool) option"
  m_category :: "string option"
  m_date_gte :: "int option"
  m_date_lte :: "int option"
  m_amount_gte :: "rat option"
  m_amount_lte :: "rat option"

definition opt_param :: "(string \<Rightarrow> 'a option) \<Rightarrow> string option \<Rightarrow> 'a option option" where
  "opt_param f x =
     (case x of None \<Rightarrow> Some None
      | Some s \<Rightarrow> if s = [] then Some None
                  else (case f s of None \<Rightarrow> None | Some v \<Rightarrow> Some (Some v)))"

definition build_query :: "lib \<Rightarrow> oid \<Rightarrow> expense_query \<Rightarrow> mongo_query option" where
  "build_query L uid q =
     (case opt_param (regexI L) (q_search q) of None \<Rightarrow> None | Some re \<Rightarrow>
     (case opt_param (newDate L) (q_startDate q) of None \<Rightarrow> None | Some d1 \<Rightarrow>
     (case opt_param (newDate L) (q_endDate q) of None \<Rightarrow> None | Some d2 \<Rightarrow>
     (case opt_param (parseFloat L) (q_minAmount q) of None \<Rightarrow> None | Some a1 \<Rightarrow>
     (case opt_param (parseFloat L) (q_maxAmount q) of None \<Rightarrow> None | Some a2 \<Rightarrow>
        Some \<lparr>m_userId = uid, m_description = re,
              m_category = (if truthy (q_category q) then q_category q else None),
              m_date_gte = d1, m_date_lte = d2, m_amount_gte = a1, m_amount_lte = a2\<rparr>)))))"

definition holds :: "('a \<Rightarrow> bool) \<Rightarrow> 'a option \<Rightarrow> bool" where
  "holds P x = (case x of None \<Rightarrow> True | Some v \<Rightarrow> P v)"

definition matches :: "mongo_query \<Rightarrow> expense \<Rightarrow> bool" where
  "matches m e =
     (userId e = m_userId m
      \<and> holds (\<lambda>r. r (description e)) (m_description m)
      \<and> holds (\<lambda>c. category e = c) (m_category m)
      \<and> holds (\<lambda>t. t \<le> date e) (m_date_gte m)
      \<and> holds (\<lambda>t. date e \<le> t) (m_date_lte m)
      \<and> holds (\<lambda>a. a \<le> amount e) (m_amount_gte m)
      \<and> holds (\<lambda>a. amount e \<le> a) (m_amount_lte m))"

text \<open>
  \<open>.sort({date: -1})\<close>: by date, latest first.  The database leaves the order of
  documents of the same date open; here they keep the order of the collection.
\<close>

definition sort_date_desc :: "expense list \<Rightarrow> expense list" where
  "sort_date_desc es = sort_key (\<lambda>e. - date e) es"

definition get_expenses :: "lib \<Rightarrow> db \<Rightarrow> oid \<Rightarrow> expense_query \<Rightarrow> response" where
  "get_expenses L d uid q =
     (case build_query L uid q of
        None \<Rightarrow> server_error
      | Some m \<Rightarrow> Response 200 (ExpenseDocs (sort_date_desc (filter (matches m) (expenses d)))))"

subsection \<open>GET /api/expenses/stats\<close>

text \<open>
  \<open>$year\<close> and \<open>$month\<close> of an instant, in UTC: the civil date of the day number,
  by the usual computation over 400-year eras, with the year starting in March.
\<close>

definition civil_of_days :: "int \<Rightarrow> int \<times> nat \<times> nat" where
  "civil_of_days z0 =
     (let z = z0 + 719468;
          era = z div 146097;
          doe = z - era * 146097;
          yoe = (doe - doe div 1460 + doe div 36524 - doe div 146096) div 365;
          doy = doe - (365 * yoe + yoe div 4 - yoe div 100);
          mp = (5 * doy + 2) div 153;
          dd = doy - (153 * mp + 2) div 5 + 1;
          mm = (if mp < 10 then mp + 3 else mp - 9);
          y = yoe + era * 400 + (if mm \<le> 2 then 1 else 0)
      in (y, nat mm, nat dd))"

definition ms_per_day :: int where
  "ms_per_day = 86400000"

definition year_of :: "int \<Rightarrow> int" where
  "year_of t = fst (civil_of_days (t div ms_per_day))"

definition month_of :: "int \<Rightarrow> nat" where
  "month_of t = fst (snd (civil_of_days (t div ms_per_day)))"

text \<open>
  \<open>$group\<close> with the accumulators \<open>total: {$sum: '$amount'}\<close> and \<open>count: {$sum: 1}\<close>:
  one entry for each key, with the database's sum of the amounts of the documents
  that have the key, and their number.  The database leaves open the order in which
  it reads the documents and the order of the groups; here the documents are read in
  the order of the collection, the groups are in the order in which their keys are
  first met, and the \<open>$sort\<close> stages that follow are stable.
\<close>

fun add_group :: "'k \<Rightarrow> rat \<Rightarrow> ('k \<times> rat list) list \<Rightarrow> ('k \<times> rat list) list" where
  "add_group k a [] = [(k, [a])]"
| "add_group k a ((k', as) # gs) =
     (if k = k' then (k', as @ [a]) # gs else (k', as) # add_group k a gs)"

fun group_acc ::
  "(expense \<Rightarrow> 'k) \<Rightarrow> ('k \<times> rat list) list \<Rightarrow> expense list \<Rightarrow> ('k \<times> rat list) list" where
  "group_acc key gs [] = gs"
| "group_acc key gs (e # es) = group_acc key (add_group (key e) (amount e) gs) es"

definition group_sum :: "lib \<Rightarrow> (expense \<Rightarrow> 'k) \<Rightarrow> expense list \<Rightarrow> ('k \<times> rat \<times> nat) list" where
  "group_sum L key es = map (\<lambda>(k, as). (k, sum_acc L as, length as)) (group_acc key [] es)"

definition sixMonthsAgo :: "lib \<Rightarrow> int \<Rightarrow> int" where
  "sixMonthsAgo L t = setMonth L t (getMonth L t - 6)"

definition total_agg :: "lib \<Rightarrow> db \<Rightarrow> oid \<Rightarrow> (unit \<times> rat \<times> nat) list" where
  "total_agg L d uid =
     group_sum L (\<lambda>e. ()) (filter (\<lambda>e. userId e = uid) (expenses d))"

definition category_agg :: "lib \<Rightarrow> db \<Rightarrow> oid \<Rightarrow> (string \<times> rat \<times> nat) list" where
  "category_agg L d uid =
     sort_key (\<lambda>g. - fst (snd g))
       (group_sum L category (filter (\<lambda>e. userId e = uid) (expenses d)))"

text \<open>\<open>$match: {userId, date: {$gte: sixMonthsAgo}}\<close>\<close>

definition recent_expenses :: "lib \<Rightarrow> int \<Rightarrow> db \<Rightarrow> oid \<Rightarrow> expense list" where
  "recent_expenses L t d uid =
     filter (\<lambda>e. userId e = uid \<and> sixMonthsAgo L t \<le> date e) (expenses d)"

definition month_key :: "expense \<Rightarrow> int \<times> nat" where
  "month_key e = (year_of (date e), month_of (date e))"

text \<open>\<open>$sort: {'_id.year': 1, '_id.month': 1}\<close> is the sort by the pair, year first.\<close>

definition monthly_agg :: "lib \<Rightarrow> int \<Rightarrow> db \<Rightarrow> oid \<Rightarrow> ((int \<times> nat) \<times> rat \<times> nat) list" where
  "monthly_agg L t d uid =
     sort_key fst (group_sum L month_key (recent_expenses L t d uid))"

text \<open>\<open>totalExpenses[0]?.total || 0\<close>\<close>

definition first_total :: "(unit \<times> rat \<times> nat) list \<Rightarrow> rat" where
  "first_total gs = (case gs of [] \<Rightarrow> 0 | g # _ \<Rightarrow> if fst (snd g) \<noteq> 0 then fst (snd g) else 0)"

definition get_stats :: "lib \<Rightarrow> env \<Rightarrow> db \<Rightarrow> oid \<Rightarrow> response" where
  "get_stats L E d uid =
     Response 200 (StatsDoc \<lparr>totalExpenses = first_total (total_agg L d uid),
                             byCategory = category_agg L d uid,
                             monthlyExpenses = monthly_agg L (now E) d uid\<rparr>)"

section \<open>Profile routes\<close>

definition lower_char :: "char \<Rightarrow> char" where
  "lower_char c = (let n = (of_char c :: nat) in if 65 \<le> n \<and> n \<le> 90 then char_of (n + 32) else c)"

definition lower :: "string \<Rightarrow> string" where
  "lower s = map lower_char s"

definition find_user :: "user list \<Rightarrow> oid \<Rightarrow> user option" where
  "find_user us i = find (\<lambda>u. u_id u = i) us"

text \<open>
  Modelled from the spec: the schema stores the email in lower case, and Mongoose
  applies the same setter to the filter of \<open>findOne({email})\<close>, so the lookup is for
  the email in lower case.
\<close>

definition findOne_email :: "user list \<Rightarrow> string \<Rightarrow> user option" where
  "findOne_email us a = find (\<lambda>u. email u = lower a) us"

fun save_user :: "user \<Rightarrow> user list \<Rightarrow> user list" where
  "save_user v [] = []"
| "save_user v (u # us) = (if u_id u = u_id v then v # us else u # save_user v us)"

text \<open>A JSON object leaves out the keys whose value is \<open>undefined\<close>.\<close>

definition opt_field :: "string \<Rightarrow> string option \<Rightarrow> (string \<times> string) list" where
  "opt_field k v = (case v of None \<Rightarrow> [] | Some s \<Rightarrow> [(k, s)])"

text \<open>
  Modelled from the spec: the JSON of a user document as \<open>User.findById\<close> loads it.
  User.js is not among the sources; by section 4.3 of the specification the document
  carries every stored field, the password hash among them.
\<close>

definition user_doc :: "user \<Rightarrow> (string \<times> string) list" where
  "user_doc u =
     [(''_id'', u_id u), (''name'', name u), (''email'', email u), (''password'', password u)]
     @ opt_field ''bio'' (bio u) @ opt_field ''phone'' (phone u) @ opt_field ''avatar'' (avatar u)"

subsection \<open>GET /api/users/profile\<close>

definition get_profile :: "db \<Rightarrow> oid \<Rightarrow> response" where
  "get_profile d uid =
     (case find_user (users d) uid of
        None \<Rightarrow> Response 200 Null
      | Some u \<Rightarrow> Response 200 (Object (user_doc u)))"

subsection \<open>PUT /api/users/profile\<close>

definition validate_profile :: "lib \<Rightarrow> profile_body \<Rightarrow> string list" where
  "validate_profile L b =
     (case p_name b of None \<Rightarrow> []
      | Some s \<Rightarrow> if trim s \<noteq> [] then [] else [''Name cannot be empty'']) @
     (case p_email b of None \<Rightarrow> []
      | Some s \<Rightarrow> if isEmail L s then [] else [''Please provide a valid email''])"

definition sanitize_profile :: "profile_body \<Rightarrow> profile_body" where
  "sanitize_profile b =
     b\<lparr>p_name := map_option trim (p_name b),
       p_bio := map_option trim (p_bio b),
       p_phone := map_option trim (p_phone b)\<rparr>"

definition opt_or :: "string option \<Rightarrow> string option \<Rightarrow> string option" where
  "opt_or x y = (case x of None \<Rightarrow> y | Some s \<Rightarrow> Some s)"

text \<open>
  The five assignments of the handler.  Modelled from the spec: the schema stores the
  email in lower case.
\<close>

definition assign_profile :: "user \<Rightarrow> profile_body \<Rightarrow> user" where
  "assign_profile u b =
     u\<lparr>name := str_or (p_name b) (name u),
       email := lower (str_or (p_email b) (email u)),
       bio := opt_or (p_bio b) (bio u),
       phone := opt_or (p_phone b) (phone u),
       avatar := opt_or (p_avatar b) (avatar u)\<rparr>"

text \<open>The object literal of the response: six keys of the saved document.\<close>

definition profile_json :: "user \<Rightarrow> (string \<times> string) list" where
  "profile_json u =
     [(''_id'', u_id u), (''name'', name u), (''email'', email u)]
     @ opt_field ''bio'' (bio u) @ opt_field ''phone'' (phone u) @ opt_field ''avatar'' (avatar u)"

text \<open>
  Modelled from the spec: the email is unique, so \<open>save\<close> fails on an email that
  another user has, and the handler's \<open>catch\<close> answers 500.
\<close>

definition email_taken :: "user list \<Rightarrow> user \<Rightarrow> bool" where
  "email_taken us v = (find (\<lambda>u. u_id u \<noteq> u_id v \<and> email u = email v) us \<noteq> None)"

definition put_profile :: "lib \<Rightarrow> db \<Rightarrow> oid \<Rightarrow> profile_body \<Rightarrow> db \<times> response" where
  "put_profile L d uid b0 =
     (if validate_profile L b0 \<noteq> [] then (d, Response 400 (ValidationErrors (validate_profile L b0)))
      else
        let b = sanitize_profile b0 in
        (case find_user (users d) uid of
           None \<Rightarrow> (d, Response 404 (Message ''User not found''))
         | Some u \<Rightarrow>
             if truthy (p_email b) \<and> p_email b \<noteq> Some (email u)
                \<and> findOne_email (users d) (str_of (p_email b)) \<noteq> None
             then (d, Response 400 (Message ''Email already in use''))
             else
               let v = assign_profile u b in
               if email_taken (users d) v then (d, server_error)
               else (d\<lparr>users := save_user v (users d)\<rparr>, Response 200 (Object (profile_json v)))))"

section \<open>The router\<close>

text \<open>
  The expense router registers \<open>/stats\<close> before \<open>/:id\<close>, so a GET of the path
  \<open>/api/expenses/stats\<close> is a request for the statistics; for PUT and DELETE there
  is no such route, and \<open>stats\<close> is an id like any other.
\<close>

fun handle :: "lib \<Rightarrow> env \<Rightarrow> db \<Rightarrow> request \<Rightarrow> db \<times> response" where
  "handle L E d (GetProfile uid) = (d, get_profile d uid)"
| "handle L E d (PutProfile uid b) = put_profile L d uid b"
| "handle L E d (GetExpenses uid q) = (d, get_expenses L d uid q)"
| "handle L E d (GetStats uid) = (d, get_stats L E d uid)"
| "handle L E d (PostExpense uid b) = post_expense L E d uid b"
| "handle L E d (GetExpense uid idp) =
     (d, if idp = ''stats'' then get_stats L E d uid else get_expense L d uid idp)"
| "handle L E d (PutExpense uid idp b) = put_expense L d uid idp b"
| "handle L E d (DeleteExpense uid idp) = delete_expense L d uid idp"

section \<open>A reference platform\<close>

text \<open>
  One instance of \<open>lib\<close>, on which the handlers can be run: decimal numerals
  (digits, then optionally a point and digits), calendar dates \<open>YYYY-MM-DD\<close> read as
  midnight UTC, patterns made of literal characters and the wildcard \<open>.\<close>, object ids
  of 24 hexadecimal digits, a server whose local time is UTC, and a \<open>$sum\<close> that adds
  the doubles one by one.  On the inputs it accepts it is what the runtime and the
  libraries compute.
\<close>

definition is_digit :: "char \<Rightarrow> bool" where
  "is_digit c = (let n = (of_char c :: nat) in 48 \<le> n \<and> n \<le> 57)"

definition digits_val :: "string \<Rightarrow> nat" where
  "digits_val s = foldl (\<lambda>v c. 10 * v + (of_char c - 48)) 0 s"

definition is_number :: "string \<Rightarrow> bool" where
  "is_number s = (s \<noteq> [] \<and> list_all is_digit s)"

definition parse_decimal :: "string \<Rightarrow> rat option" where
  "parse_decimal s =
     (let ip = takeWhile is_digit s; r = dropWhile is_digit s in
      if ip = [] then None
      else if r = [] then Some (of_nat (digits_val ip))
      else if hd r = CHR ''.'' \<and> is_number (tl r)
      then Some (of_nat (digits_val ip) + of_nat (digits_val (tl r)) / 10 ^ length (tl r))
      else None)"

definition days_of_civil :: "int \<Rightarrow> int \<Rightarrow> int \<Rightarrow> int" where
  "days_of_civil y0 m dd =
     (let y = (if m \<le> 2 then y0 - 1 else y0);
          era = y div 400;
          yoe = y - era * 400;
          doy = (153 * (if 2 < m then m - 3 else m + 9) + 2) div 5 + dd - 1;
          doe = yoe * 365 + yoe div 4 - yoe div 100 + doy
      in era * 146097 + doe - 719468)"

definition days_in_month :: "int \<Rightarrow> int \<Rightarrow> int" where
  "days_in_month y m =
     (if m = 12 then days_of_civil (y + 1) 1 1 else days_of_civil y (m + 1) 1) - days_of_civil y m 1"

definition parse_date :: "string \<Rightarrow> int option" where
  "parse_date s =
     (if length s = 10 \<and> s ! 4 = CHR ''-'' \<and> s ! 7 = CHR ''-''
         \<and> is_number (take 4 s) \<and> is_number (take 2 (drop 5 s)) \<and> is_number (drop 8 s)
      then
        (let y = int (digits_val (take 4 s));
             m = int (digits_val (take 2 (drop 5 s)));
             dd = int (digits_val (drop 8 s))
         in if 1 \<le> m \<and> m \<le> 12 \<and> 1 \<le> dd \<and> dd \<le> days_in_month y m
            then Some (days_of_civil y m dd * ms_per_day) else None)
      else None)"

text \<open>
  Patterns: a literal character stands for itself in either case, \<open>.\<close> for any
  character but the line feed; the match may start anywhere in the subject.  A
  pattern with another metacharacter is not interpreted.
\<close>

definition metachars :: "char list" where
  "metachars = ''.^$*+?()[]{}|'' @ [CHR 0x5C]"

fun match_here :: "string \<Rightarrow> string \<Rightarrow> bool" where
  "match_here [] s = True"
| "match_here (p # ps) [] = False"
| "match_here (p # ps) (c # cs) =
     ((if p = CHR ''.'' then c \<noteq> CHR 0x0A else lower_char p = lower_char c) \<and> match_here ps cs)"

fun search_from :: "string \<Rightarrow> string \<Rightarrow> bool" where
  "search_from p [] = match_here p []"
| "search_from p (c # cs) = (match_here p (c # cs) \<or> search_from p cs)"

definition regex0 :: "string \<Rightarrow> (string \<Rightarrow> bool) option" where
  "regex0 p = (if list_ex (\<lambda>c. c \<noteq> CHR ''.'' \<and> c \<in> set metachars) p then None
               else Some (search_from p))"

definition is_hex :: "char \<Rightarrow> bool" where
  "is_hex c = (let n = (of_char (lower_char c) :: nat) in (48 \<le> n \<and> n \<le> 57) \<or> (97 \<le> n \<and> n \<le> 102))"

definition objectId0 :: "string \<Rightarrow> oid option" where
  "objectId0 s = (if length s = 24 \<and> list_all is_hex s then Some (lower s) else None)"

definition email0 :: "string \<Rightarrow> bool" where
  "email0 s = (let a = takeWhile (\<lambda>c. c \<noteq> CHR ''@'') s; r = dropWhile (\<lambda>c. c \<noteq> CHR ''@'') s in
               a \<noteq> [] \<and> r \<noteq> [] \<and> CHR ''.'' \<in> set (tl r) \<and> CHR ''@'' \<notin> set (tl r)
               \<and> \<not> list_ex is_space s \<and> hd (tl r) \<noteq> CHR ''.'' \<and> last s \<noteq> CHR ''.'')"

text \<open>
  \<open>getMonth\<close> and \<open>setMonth\<close> with local time UTC: the month is counted from 0, and
  \<open>setMonth\<close> keeps the day of the month and the time within the day, a month outside
  0..11 moving the year.
\<close>

definition getMonth0 :: "int \<Rightarrow> int" where
  "getMonth0 t = int (month_of t) - 1"

definition setMonth0 :: "int \<Rightarrow> int \<Rightarrow> int" where
  "setMonth0 t m =
     (let dd = int (snd (snd (civil_of_days (t div ms_per_day))));
          y = year_of t + m div 12
      in (days_of_civil y (m mod 12 + 1) 1 + dd - 1) * ms_per_day + t mod ms_per_day)"

text \<open>
  The addition of doubles, \<open>+\<close> in JavaScript: the exact sum, rounded to the nearest
  number with a significand of 53 bits, a tie going to the even significand.
  Overflow and subnormal numbers are left out.
\<close>

function bits :: "int \<Rightarrow> int" where
  "bits n = (if n \<le> 0 then 0 else 1 + bits (n div 2))"
  by pat_completeness auto
termination
  by (relation "measure nat") auto

declare bits.simps [simp del]

definition pow2 :: "int \<Rightarrow> rat" where
  "pow2 e = (if 0 \<le> e then 2 ^ nat e else 1 / 2 ^ nat (- e))"

definition ilog2 :: "rat \<Rightarrow> int" where
  "ilog2 a =
     (let c = bits (fst (quotient_of a)) - bits (snd (quotient_of a))
      in if pow2 c \<le> a then c else c - 1)"

definition round_even :: "rat \<Rightarrow> int" where
  "round_even m =
     (let f = \<lfloor>m\<rfloor>; r = m - of_int f
      in if r < 1 / 2 then f else if 1 / 2 < r then f + 1 else if even f then f else f + 1)"

definition round53 :: "rat \<Rightarrow> rat" where
  "round53 x =
     (if x = 0 then 0
      else let e = ilog2 \<bar>x\<bar> - 52 in of_int (round_even (x / pow2 e)) * pow2 e)"

definition fadd0 :: "rat \<Rightarrow> rat \<Rightarrow> rat" where
  "fadd0 x y = round53 (x + y)"

text \<open>
  The sum of a list of doubles as a program adds it up, from 0 and from the first
  number on, each addition rounding: \<open>xs.reduce((s, a) => s + a, 0)\<close>.  The
  reference platform takes it for the \<open>$sum\<close> of the database as well; a database
  may add more accurately.
\<close>

definition fsum :: "rat list \<Rightarrow> rat" where
  "fsum xs = foldl fadd0 0 xs"

definition lib0 :: lib where
  "lib0 = \<lparr>isFloatMin0 = (\<lambda>s. parse_decimal s \<noteq> None),
           castNumberStr = parse_decimal,
           isISO8601 = (\<lambda>s. parse_date s \<noteq> None),
           castDateStr = parse_date,
           newDate = parse_date,
           parseFloat = parse_decimal,
           regexI = regex0,
           isEmail = email0,
           castObjectId = objectId0,
           getMonth = getMonth0,
           setMonth = setMonth0,
           sum_acc = fsum\<rparr>"

section \<open>The answers as specified\<close>

subsection \<open>The expense list\<close>

text \<open>
  The filters in the words of the specification.  A search text is contained in a
  description when, letter case aside, it is a contiguous part of it.
\<close>

definition ci_contains :: "string \<Rightarrow> string \<Rightarrow> bool" where
  "ci_contains p s = sublist (lower p) (lower s)"

text \<open>
  A text without regular-expression metacharacters, and the assumption on the
  database that it matches such a pattern as the literal text, in either case.
\<close>

definition plain :: "string \<Rightarrow> bool" where
  "plain p = list_all (\<lambda>c. c \<notin> set metachars) p"

definition regex_literal :: "lib \<Rightarrow> bool" where
  "regex_literal L = (\<forall>p. plain p \<longrightarrow> regexI L p = Some (ci_contains p))"

text \<open>A supplied (non-empty) bound is one that the runtime can read.\<close>

definition parses :: "(string \<Rightarrow> 'a option) \<Rightarrow> string option \<Rightarrow> bool" where
  "parses f x = (truthy x \<longrightarrow> f (str_of x) \<noteq> None)"

text \<open>
  The expenses that the specification asks for: the requester's own, meeting every
  filter that is supplied with a non-empty value.
\<close>

definition wanted :: "lib \<Rightarrow> oid \<Rightarrow> expense_query \<Rightarrow> expense \<Rightarrow> bool" where
  "wanted L uid q e =
     (userId e = uid
      \<and> (truthy (q_search q) \<longrightarrow> ci_contains (str_of (q_search q)) (description e))
      \<and> (truthy (q_category q) \<longrightarrow> category e = str_of (q_category q))
      \<and> (truthy (q_startDate q) \<longrightarrow> (\<exists>t. newDate L (str_of (q_startDate q)) = Some t \<and> t \<le> date e))
      \<and> (truthy (q_endDate q) \<longrightarrow> (\<exists>t. newDate L (str_of (q_endDate q)) = Some t \<and> date e \<le> t))
      \<and> (truthy (q_minAmount q) \<longrightarrow> (\<exists>a. parseFloat L (str_of (q_minAmount q)) = Some a \<and> a \<le> amount e))
      \<and> (truthy (q_maxAmount q) \<longrightarrow> (\<exists>a. parseFloat L (str_of (q_maxAmount q)) = Some a \<and> amount e \<le> a)))"

subsection \<open>The statistics\<close>

text \<open>
  The lists of amounts that a program adds up without rounding: each addition of
  \<open>fsum\<close> returns the exact sum.
\<close>

fun exact_from :: "rat \<Rightarrow> rat list \<Rightarrow> bool" where
  "exact_from acc [] = True"
| "exact_from acc (a # r) = (fadd0 acc a = acc + a \<and> exact_from (acc + a) r)"

definition exact :: "rat list \<Rightarrow> bool" where
  "exact xs = exact_from 0 xs"

text \<open>The database's sum and the number of the expenses that have a given key.\<close>

definition key_total :: "lib \<Rightarrow> (expense \<Rightarrow> 'k) \<Rightarrow> 'k \<Rightarrow> expense list \<Rightarrow> rat" where
  "key_total L key k es = sum_acc L (map amount (filter (\<lambda>e. key e = k) es))"

definition key_count :: "(expense \<Rightarrow> 'k) \<Rightarrow> 'k \<Rightarrow> expense list \<Rightarrow> nat" where
  "key_count key k es = length (filter (\<lambda>e. key e = k) es)"

section \<open>A sample database\<close>

text \<open>
  Two users and five expenses, on which the theorems below are run.  The clock of
  \<open>env0\<close> is 2024-06-15, midnight UTC; the flight is dated 2025-01-20, the book
  2023-11-02.
\<close>

definition alice_id :: oid where "alice_id = ''64b0000000000000000000a1''"
definition bob_id :: oid where "bob_id = ''64b0000000000000000000b2''"

definition alice :: user where
  "alice = \<lparr>u_id = alice_id, name = ''Alice'', email = ''alice@example.com'',
            password = ''$2a$10$hashA'', bio = Some ''Engineer'', phone = None, avatar = None\<rparr>"

definition bob :: user where
  "bob = \<lparr>u_id = bob_id, name = ''Bob'', email = ''bob@example.com'',
          password = ''$2a$10$hashB'', bio = None, phone = Some ''+1234567890'', avatar = None\<rparr>"

definition lunch :: expense where
  "lunch = \<lparr>e_id = ''64c000000000000000000001'', userId = alice_id, amount = 50,
            category = ''Food & Dining'', description = ''Lunch at ABC'',
            date = 1717977600000, paymentMethod = ''Cash''\<rparr>"

definition taxi :: expense where
  "taxi = \<lparr>e_id = ''64c000000000000000000002'', userId = alice_id, amount = 25 / 2,
           category = ''Transportation'', description = ''Taxi'',
           date = 1709596800000, paymentMethod = ''UPI''\<rparr>"

definition rent :: expense where
  "rent = \<lparr>e_id = ''64c000000000000000000003'', userId = bob_id, amount = 900,
           category = ''Bills & Utilities'', description = ''Rent'',
           date = 1717200000000, paymentMethod = ''Net Banking''\<rparr>"

definition flight :: expense where
  "flight = \<lparr>e_id = ''64c000000000000000000004'', userId = alice_id, amount = 300,
             category = ''Travel'', description = ''Flight'',
             date = 1737331200000, paymentMethod = ''Credit Card''\<rparr>"

definition book :: expense where
  "book = \<lparr>e_id = ''64c000000000000000000005'', userId = alice_id, amount = 20,
           category = ''Shopping'', description = ''Book'',
           date = 1698883200000, paymentMethod = ''Cash''\<rparr>"

definition db0 :: db where
  "db0 = \<lparr>users = [alice, bob], expenses = [lunch, taxi, rent, flight, book]\<rparr>"

definition env0 :: env where
  "env0 = \<lparr>now = 1718409600000, newId = ''64c000000000000000000009''\<rparr>"

text \<open>Carol has an id and no expenses; no expense has the id \<open>missing_id\<close>.\<close>

definition carol_id :: oid where "carol_id = ''64b0000000000000000000c3''"


subsection \<open>Requests on the sample database\<close>

text \<open>
  A create request whose body names Bob as the owner, and the document it creates
  for Alice.
\<close>

definition lunch_post :: expense_body where
  "lunch_post = \<lparr>b_userId = Some bob_id, b_amount = Some (NumStr ''50''),
      b_category = Some ''Food & Dining'', b_description = Some '' Lunch '',
      b_date = None, b_paymentMethod = Some ''Cash''\<rparr>"

definition posted :: expense where
  "posted = \<lparr>e_id = ''64c000000000000000000009'', userId = alice_id, amount = 50,
      category = ''Food & Dining'', description = ''Lunch'', date = 1718409600000,
      paymentMethod = ''Cash''\<rparr>"

text \<open>Updates: the amount alone; the amount 0 with empty strings.\<close>

definition amount_only :: expense_body where
  "amount_only = no_body\<lparr>b_amount := Some (NumLit 75)\<rparr>"

definition zero_body :: expense_body where
  "zero_body = no_body\<lparr>b_amount := Some (NumLit 0), b_category := Some [], b_paymentMethod := Some []\<rparr>"

definition empty_strings :: expense_body where
  "empty_strings = zero_body\<lparr>b_description := Some [], b_date := Some []\<rparr>"

text \<open>Two list queries, and the statistics of Alice.\<close>

definition all_filters :: expense_query where
  "all_filters = \<lparr>q_search = Some ''LUN'', q_category = Some ''Food & Dining'',
      q_startDate = Some ''2024-01-01'', q_endDate = Some ''2024-12-31'',
      q_minAmount = Some ''10'', q_maxAmount = Some ''100.5''\<rparr>"

definition min_only :: expense_query where
  "min_only = no_query\<lparr>q_minAmount := Some ''15'', q_category := Some []\<rparr>"

definition alice_stats :: stats where
  "alice_stats = \<lparr>totalExpenses = 765 / 2,
      byCategory = [(''Travel'', 300, 1), (''Food & Dining'', 50, 1), (''Shopping'', 20, 1),
                    (''Transportation'', 25 / 2, 1)],
      monthlyExpenses = [((2024, 3), 25 / 2, 1), ((2024, 6), 50, 1), ((2025, 1), 300, 1)]\<rparr>"

text \<open>Four profile updates.\<close>

definition take_bobs_email :: profile_body where
  "take_bobs_email = no_profile\<lparr>p_email := Some ''bob@example.com''\<rparr>"

definition new_bio :: profile_body where
  "new_bio = no_profile\<lparr>p_bio := Some '' Runner '', p_email := Some ''Alice@Example.org''\<rparr>"

definition own_email_upper :: profile_body where
  "own_email_upper = no_profile\<lparr>p_email := Some ''Alice@Example.com''\<rparr>"

definition blank_name :: profile_body where
  "blank_name = no_profile\<lparr>p_name := Some '' '', p_email := Some ''bob@example.com''\<rparr>"

text \<open>Two updates that set the amount to 0 next to an empty description or date.\<close>

definition zero_blank :: expense_body where
  "zero_blank = no_body\<lparr>b_amount := Some (NumLit 0), b_description := Some []\<rparr>"

definition empty_date :: expense_body where
  "empty_date = no_body\<lparr>b_amount := Some (NumLit 0), b_date := Some []\<rparr>"

text \<open>
  Three expenses of 0.3, 0.2 and 0.1, each amount being the double nearest to the
  decimal, entered in this order and dated on three consecutive days; and the
  statistics of that database.
\<close>

definition coffee :: expense where
  "coffee = \<lparr>e_id = ''64c0000000000000000000d3'', userId = alice_id,
      amount = 3602879701896397 / 36028797018963968,
      category = ''Food & Dining'', description = ''Coffee'',
      date = 1717372800000, paymentMethod = ''Cash''\<rparr>"

definition tea :: expense where
  "tea = \<lparr>e_id = ''64c0000000000000000000d2'', userId = alice_id,
      amount = 3602879701896397 / 18014398509481984,
      category = ''Food & Dining'', description = ''Tea'',
      date = 1717286400000, paymentMethod = ''Cash''\<rparr>"

definition cake :: expense where
  "cake = \<lparr>e_id = ''64c0000000000000000000d1'', userId = alice_id,
      amount = 5404319552844595 / 18014398509481984,
      category = ''Food & Dining'', description = ''Cake'',
      date = 1717200000000, paymentMethod = ''Cash''\<rparr>"

definition db_cents :: db where
  "db_cents = \<lparr>users = [alice], expenses = [cake, tea, coffee]\<rparr>"

definition cents_stats :: stats where
  "cents_stats = \<lparr>totalExpenses = 5404319552844595 / 9007199254740992,
      byCategory = [(''Food & Dining'', 5404319552844595 / 9007199254740992, 3)],
      monthlyExpenses = [((2024, 6), 5404319552844595 / 9007199254740992, 3)]\<rparr>"

section \<open>Properties of the expense routes\<close>

subsection \<open>Trimming\<close>

lemma dropWhile_id: "xs = [] \<or> \<not> P (hd xs) \<Longrightarrow> dropWhile P xs = xs"
  by (cases xs) auto

lemma last_suffix: "u \<noteq> [] \<Longrightarrow> r = ys @ u \<Longrightarrow> last u = last r"
  by simp

lemma trim_ends:
  "trim s = [] \<or> (\<not> is_space (hd (trim s)) \<and> \<not> is_space (last (trim s)))"
proof (cases "trim s = []")
  case True
  then show ?thesis by simp
next
  case False
  let ?t = "dropWhile is_space s"
  let ?u = "dropWhile is_space (rev ?t)"
  from False have u: "?u \<noteq> []" by (simp add: trim_def)
  then have hu: "\<not> is_space (hd ?u)" by (rule hd_dropWhile)
  have t: "?t \<noteq> []"
  proof
    assume "?t = []"
    then have "?u = []" by (simp only: rev.simps dropWhile.simps)
    with u show False by (simp only:)
  qed
  then have ht: "\<not> is_space (hd ?t)" by (rule hd_dropWhile)
  obtain ys where ys: "rev ?t = ys @ ?u"
    by (metis takeWhile_dropWhile_id)
  from u ys have "last ?u = last (rev ?t)" by (rule last_suffix)
  also have "\<dots> = hd ?t" by (rule last_rev)
  finally have eq: "last ?u = hd ?t" .
  have lu: "\<not> is_space (last ?u)" unfolding eq by (rule ht)
  have "hd (rev ?u) = last ?u" by (rule hd_rev)
  moreover have "last (rev ?u) = hd ?u" by (rule last_rev)
  ultimately have "\<not> is_space (hd (rev ?u)) \<and> \<not> is_space (last (rev ?u))"
    using hu lu by (simp only: simp_thms)
  then show ?thesis by (simp only: trim_def simp_thms)
qed

lemma trim_idem: "trim (trim s) = trim s"
proof (cases "trim s = []")
  case True
  have "trim [] = []" by (simp add: trim_def)
  with True show ?thesis by simp
next
  case False
  with trim_ends [of s] have h: "\<not> is_space (hd (trim s))" and l: "\<not> is_space (last (trim s))"
    by simp_all
  from False h have "dropWhile is_space (trim s) = trim s" by (simp add: dropWhile_id)
  moreover from False l have "dropWhile is_space (rev (trim s)) = rev (trim s)"
    by (simp add: dropWhile_id hd_rev)
  ultimately show ?thesis by (simp add: trim_def [of "trim s"])
qed

subsection \<open>Lookup and deletion\<close>

lemma findById_Some: "findById es i = Some e \<Longrightarrow> e \<in> set es \<and> e_id e = i"
  unfolding findById_def by (induction es) (auto split: if_splits)




subsection \<open>Another user's expense\<close>

text \<open>
  C1 (as amended).  When the route id (not the path segment \<open>stats\<close>, which is no
  id for GET) casts to the id of a stored expense whose \<open>userId\<close> is not the
  requester's, GET and DELETE answer 401 "Not authorized",
  and so does PUT when its body passes the route's validation chains; a PUT whose
  body fails them is answered 400 with the validation errors, before the expense is
  looked up.  In every case the database is returned as it was: the expense is
  neither changed nor deleted.
\<close>

theorem foreign_expense_rejected:
  assumes "castObjectId L idp = Some i" and "findById (expenses d) i = Some e"
    and "userId e \<noteq> uid" and "idp \<noteq> ''stats''"
  shows "handle L E d (GetExpense uid idp) = (d, Response 401 (Message ''Not authorized''))
       \<and> handle L E d (DeleteExpense uid idp) = (d, Response 401 (Message ''Not authorized''))
       \<and> handle L E d (PutExpense uid idp b) =
           (d, if validate_update L b = [] then Response 401 (Message ''Not authorized'')
               else Response 400 (ValidationErrors (validate_update L b)))"
  using assms by (simp add: get_expense_def delete_expense_def put_expense_def)

text \<open>Bob asks for, deletes and updates Alice's lunch.\<close>

theorem foreign_expense_rejected_witness:
  "handle lib0 env0 db0 (GetExpense bob_id (e_id lunch))
     = (db0, Response 401 (Message ''Not authorized''))
   \<and> handle lib0 env0 db0 (DeleteExpense bob_id (e_id lunch))
     = (db0, Response 401 (Message ''Not authorized''))
   \<and> handle lib0 env0 db0 (PutExpense bob_id (e_id lunch) (no_body\<lparr>b_amount := Some (NumLit 0)\<rparr>))
     = (db0, Response 401 (Message ''Not authorized''))"
proof -
  have h1: "castObjectId lib0 (e_id lunch) = Some (e_id lunch)" by code_simp
  have h2: "findById (expenses db0) (e_id lunch) = Some lunch" by code_simp
  have h3: "userId lunch \<noteq> bob_id" by code_simp
  have h4: "validate_update lib0 (no_body\<lparr>b_amount := Some (NumLit 0)\<rparr>) = []" by code_simp
  have h5: "e_id lunch \<noteq> ''stats''" by code_simp
  show ?thesis
    using foreign_expense_rejected [OF h1 h2 h3 h5, of env0 "no_body\<lparr>b_amount := Some (NumLit 0)\<rparr>"]
    by (simp add: h4)
qed

text \<open>
  The claim as stated fails for PUT: Bob's update of Alice's lunch with the amount
  -5 is answered 400, not 401.
\<close>

theorem foreign_put_invalid_body:
  "castObjectId lib0 (e_id lunch) = Some (e_id lunch)
   \<and> findById (expenses db0) (e_id lunch) = Some lunch
   \<and> userId lunch \<noteq> bob_id
   \<and> handle lib0 env0 db0 (PutExpense bob_id (e_id lunch) (no_body\<lparr>b_amount := Some (NumLit (- 5))\<rparr>))
       = (db0, Response 400 (ValidationErrors [''Amount must be a positive number'']))
   \<and> status (snd (handle lib0 env0 db0
         (PutExpense bob_id (e_id lunch) (no_body\<lparr>b_amount := Some (NumLit (- 5))\<rparr>)))) \<noteq> 401"
  by code_simp

subsection \<open>Unknown ids, and deletion\<close>




subsection \<open>Creation\<close>

lemma new_expense_owner: "new_expense L E uid b = Some e \<Longrightarrow> userId e = uid \<and> e_id e = newId E"
  by (auto simp: new_expense_def split: option.splits if_splits)

lemma body_userId_ignored:
  "post_expense L E d uid (b\<lparr>b_userId := x\<rparr>) = post_expense L E d uid b"
  by (simp add: post_expense_def validate_create_def new_expense_def sanitize_expense_def
        cong: option.case_cong)

text \<open>
  C2.  The handler never reads a \<open>userId\<close> of the body: with any other value of that
  field it returns the same result.  Every POST that is answered without an error
  status is answered 201 with the created document, whose \<open>userId\<close> is the
  authenticated requester's id, and that document is what the collection gains.
\<close>

theorem created_expense_owner:
  "handle L E d (PostExpense uid (b\<lparr>b_userId := x\<rparr>)) = handle L E d (PostExpense uid b)
   \<and> (handle L E d (PostExpense uid b) = (d', r) \<and> status r < 400 \<longrightarrow>
        (\<exists>e. r = Response 201 (ExpenseDoc e) \<and> userId e = uid
           \<and> expenses d' = expenses d @ [e] \<and> users d' = users d))"
proof (intro conjI impI)
  show "handle L E d (PostExpense uid (b\<lparr>b_userId := x\<rparr>)) = handle L E d (PostExpense uid b)"
    by (simp add: body_userId_ignored)
next
  assume a: "handle L E d (PostExpense uid b) = (d', r) \<and> status r < 400"
  then have p: "post_expense L E d uid b = (d', r)" and s: "status r < 400" by simp_all
  from s have ok: "validate_create L b = []"
    using p by (auto simp: post_expense_def split: if_splits)
  from p s ok obtain e where
    e: "new_expense L E uid (sanitize_expense b) = Some e"
    by (cases "new_expense L E uid (sanitize_expense b)")
       (auto simp: post_expense_def server_error_def)
  from p s ok e have "r = Response 201 (ExpenseDoc e) \<and> d' = d\<lparr>expenses := expenses d @ [e]\<rparr>"
    by (auto simp: post_expense_def server_error_def split: if_splits)
  moreover from e have "userId e = uid" by (simp add: new_expense_owner)
  ultimately show "\<exists>e. r = Response 201 (ExpenseDoc e) \<and> userId e = uid
           \<and> expenses d' = expenses d @ [e] \<and> users d' = users d"
    by auto
qed

text \<open>Alice posts a lunch whose body names Bob as the owner.\<close>

theorem created_expense_owner_witness:
  "handle lib0 env0 db0 (PostExpense alice_id lunch_post)
     = (db0\<lparr>expenses := expenses db0 @ [posted]\<rparr>, Response 201 (ExpenseDoc posted))
   \<and> b_userId lunch_post = Some bob_id
   \<and> userId posted = alice_id"
proof -
  have h: "handle lib0 env0 db0 (PostExpense alice_id lunch_post)
     = (db0\<lparr>expenses := expenses db0 @ [posted]\<rparr>, Response 201 (ExpenseDoc posted))"
    by code_simp
  have s: "status (Response 201 (ExpenseDoc posted)) < 400" by simp
  from created_expense_owner [where L = lib0 and E = env0 and d = db0 and uid = alice_id
      and b = lunch_post and d' = "db0\<lparr>expenses := expenses db0 @ [posted]\<rparr>"
      and r = "Response 201 (ExpenseDoc posted)",
      THEN conjunct2, rule_format, OF conjI [OF h s]]
  have "userId posted = alice_id" by simp
  moreover have "b_userId lunch_post = Some bob_id" by code_simp
  ultimately show ?thesis using h by simp
qed

subsection \<open>Update\<close>

lemma findById_save_doc:
  "findById es i = Some e \<Longrightarrow> e_id e' = i \<Longrightarrow> findById (save_doc e' es) i = Some e'"
  unfolding findById_def by (induction es) (auto split: if_splits)

lemma findById_save_other:
  "j \<noteq> e_id e' \<Longrightarrow> findById (save_doc e' es) j = findById es j"
  unfolding findById_def by (induction es) auto

lemma map_save_doc:
  "findById es i = Some e \<Longrightarrow> e_id e' = i \<Longrightarrow> f e' = f e \<Longrightarrow> map f (save_doc e' es) = map f es"
  unfolding findById_def by (induction es) (auto split: if_splits)

lemma assign_fields_ids:
  "assign_fields L e b = Some e' \<Longrightarrow> e_id e' = e_id e \<and> userId e' = userId e"
  by (auto simp: assign_fields_def split: option.splits if_splits)

lemma status_server_error: "status server_error = 500"
  by (simp add: server_error_def)

lemma put_expense_ok:
  assumes "put_expense L d uid idp b = (d', r)" and "status r = 200"
  shows "\<exists>i e e'. validate_update L b = [] \<and> castObjectId L idp = Some i
           \<and> findById (expenses d) i = Some e \<and> userId e = uid
           \<and> assign_fields L e (sanitize_expense b) = Some e' \<and> schema_valid e'
           \<and> d' = d\<lparr>expenses := save_doc e' (expenses d)\<rparr> \<and> r = Response 200 (ExpenseDoc e')"
proof -
  from assms have v: "validate_update L b = []"
    by (auto simp: put_expense_def split: if_splits)
  from assms v obtain i where i: "castObjectId L idp = Some i"
    by (cases "castObjectId L idp") (auto simp: put_expense_def status_server_error)
  from assms v i obtain e where e: "findById (expenses d) i = Some e"
    by (cases "findById (expenses d) i") (auto simp: put_expense_def)
  from assms v i e have u: "userId e = uid"
    by (auto simp: put_expense_def split: if_splits)
  from assms v i e u obtain e' where e': "assign_fields L e (sanitize_expense b) = Some e'"
    by (cases "assign_fields L e (sanitize_expense b)") (auto simp: put_expense_def status_server_error)
  from assms v i e u e' have "schema_valid e' \<and> d' = d\<lparr>expenses := save_doc e' (expenses d)\<rparr>
      \<and> r = Response 200 (ExpenseDoc e')"
    by (auto simp: put_expense_def status_server_error split: if_splits)
  with v i e u e' show ?thesis by blast
qed

text \<open>
  C3.  Every PUT /api/expenses/:id that is answered 200 was made by the owner of a
  stored expense; the answer is the updated document, which is what is then stored
  under the id.  It keeps the id and the owner, and every one of amount, category,
  description, date and paymentMethod that the body omits has exactly the value
  stored before.  The other expenses and the users are as they were.
\<close>

theorem partial_update_keeps_omitted:
  assumes "handle L E d (PutExpense uid idp b) = (d', r)" and "status r = 200"
  shows "\<exists>i e e'. castObjectId L idp = Some i \<and> findById (expenses d) i = Some e \<and> userId e = uid
           \<and> r = Response 200 (ExpenseDoc e') \<and> findById (expenses d') i = Some e'
           \<and> e_id e' = e_id e \<and> userId e' = userId e
           \<and> (b_amount b = None \<longrightarrow> amount e' = amount e)
           \<and> (b_category b = None \<longrightarrow> category e' = category e)
           \<and> (b_description b = None \<longrightarrow> description e' = description e)
           \<and> (b_date b = None \<longrightarrow> date e' = date e)
           \<and> (b_paymentMethod b = None \<longrightarrow> paymentMethod e' = paymentMethod e)
           \<and> (\<forall>j. j \<noteq> i \<longrightarrow> findById (expenses d') j = findById (expenses d) j)
           \<and> users d' = users d"
proof -
  from assms have "put_expense L d uid idp b = (d', r)" by simp
  from put_expense_ok [OF this assms(2)] obtain i e e' where
    i: "castObjectId L idp = Some i" and e: "findById (expenses d) i = Some e"
    and u: "userId e = uid" and a: "assign_fields L e (sanitize_expense b) = Some e'"
    and d': "d' = d\<lparr>expenses := save_doc e' (expenses d)\<rparr>" and r: "r = Response 200 (ExpenseDoc e')"
    by blast
  from e have ei: "e_id e = i" by (simp add: findById_Some)
  from a have ids: "e_id e' = e_id e \<and> userId e' = userId e" by (rule assign_fields_ids)
  from e ids ei d' have f: "findById (expenses d') i = Some e'"
    by (simp add: findById_save_doc)
  from ids ei d' have o: "\<forall>j. j \<noteq> i \<longrightarrow> findById (expenses d') j = findById (expenses d) j"
    by (simp add: findById_save_other)
  from a have k: "(b_amount b = None \<longrightarrow> amount e' = amount e)
           \<and> (b_category b = None \<longrightarrow> category e' = category e)
           \<and> (b_description b = None \<longrightarrow> description e' = description e)
           \<and> (b_date b = None \<longrightarrow> date e' = date e)
           \<and> (b_paymentMethod b = None \<longrightarrow> paymentMethod e' = paymentMethod e)"
    by (auto simp: assign_fields_def sanitize_expense_def str_or_def split: option.splits if_splits)
  from i e u r f ids k o d' show ?thesis by auto
qed

text \<open>Alice changes the amount of her lunch and nothing else.\<close>

theorem partial_update_keeps_omitted_witness:
  "handle lib0 env0 db0 (PutExpense alice_id (e_id lunch) amount_only)
     = (db0\<lparr>expenses := [lunch\<lparr>amount := 75\<rparr>, taxi, rent, flight, book]\<rparr>,
        Response 200 (ExpenseDoc (lunch\<lparr>amount := 75\<rparr>)))
   \<and> findById (expenses db0) (e_id lunch) = Some lunch
   \<and> category (lunch\<lparr>amount := 75\<rparr>) = category lunch
   \<and> description (lunch\<lparr>amount := 75\<rparr>) = description lunch
   \<and> date (lunch\<lparr>amount := 75\<rparr>) = date lunch
   \<and> paymentMethod (lunch\<lparr>amount := 75\<rparr>) = paymentMethod lunch"
proof -
  let ?d' = "db0\<lparr>expenses := [lunch\<lparr>amount := 75\<rparr>, taxi, rent, flight, book]\<rparr>"
  let ?r = "Response 200 (ExpenseDoc (lunch\<lparr>amount := 75\<rparr>))"
  have h: "handle lib0 env0 db0 (PutExpense alice_id (e_id lunch) amount_only) = (?d', ?r)"
    by code_simp
  have s: "status ?r = 200" by simp
  have c: "castObjectId lib0 (e_id lunch) = Some (e_id lunch)" by code_simp
  have f: "findById (expenses db0) (e_id lunch) = Some lunch" by code_simp
  have n: "b_category amount_only = None \<and> b_description amount_only = None
     \<and> b_date amount_only = None \<and> b_paymentMethod amount_only = None" by code_simp
  from partial_update_keeps_omitted [OF h s] c f n
  have "category (lunch\<lparr>amount := 75\<rparr>) = category lunch
   \<and> description (lunch\<lparr>amount := 75\<rparr>) = description lunch
   \<and> date (lunch\<lparr>amount := 75\<rparr>) = date lunch
   \<and> paymentMethod (lunch\<lparr>amount := 75\<rparr>) = paymentMethod lunch" by auto
  with h f show ?thesis by simp
qed

subsection \<open>Zero and empty values in an update\<close>

lemma put_empty_category:
  "b_category b = Some [] \<Longrightarrow>
     put_expense L d uid idp b = put_expense L d uid idp (b\<lparr>b_category := None\<rparr>)"
  by (simp add: put_expense_def validate_update_def sanitize_expense_def assign_fields_def
      str_or_def Let_def cong: option.case_cong if_cong)

lemma put_empty_paymentMethod:
  "b_paymentMethod b = Some [] \<Longrightarrow>
     put_expense L d uid idp b = put_expense L d uid idp (b\<lparr>b_paymentMethod := None\<rparr>)"
  by (simp add: put_expense_def validate_update_def sanitize_expense_def assign_fields_def
      str_or_def Let_def cong: option.case_cong if_cong)

lemma put_expense_frame:
  assumes "put_expense L d uid idp b = (d', r)"
    and "\<And>e e'. assign_fields L e (sanitize_expense b) = Some e' \<Longrightarrow> f e' = f e"
  shows "map f (expenses d') = map f (expenses d)"
proof (cases "status r = 200")
  case True
  from put_expense_ok [OF assms(1) True] obtain i e e' where
    e: "findById (expenses d) i = Some e" and a: "assign_fields L e (sanitize_expense b) = Some e'"
    and d': "d' = d\<lparr>expenses := save_doc e' (expenses d)\<rparr>"
    by blast
  from e have "e_id e = i" by (simp add: findById_Some)
  with a have "e_id e' = i" by (simp add: assign_fields_ids)
  with e assms(2) [OF a] d' show ?thesis by (simp add: map_save_doc)
next
  case False
  with assms(1) have "d' = d"
    by (auto simp: put_expense_def Let_def split: if_splits option.splits)
  then show ?thesis by simp
qed

lemma assign_fields_empty:
  assumes "assign_fields L e (sanitize_expense b) = Some e'"
  shows "(b_category b = Some [] \<longrightarrow> category e' = category e)
       \<and> (b_description b = Some [] \<longrightarrow> description e' = description e)
       \<and> (b_date b = Some [] \<longrightarrow> date e' = date e)
       \<and> (b_paymentMethod b = Some [] \<longrightarrow> paymentMethod e' = paymentMethod e)"
  using assms
  by (auto simp: assign_fields_def sanitize_expense_def str_or_def trim_def split: option.splits)

lemma put_zero_amount:
  assumes "put_expense L d uid idp (b\<lparr>b_amount := None\<rparr>) = (d', Response 200 (ExpenseDoc e'))"
  shows "put_expense L d uid idp (b\<lparr>b_amount := Some (NumLit 0)\<rparr>)
           = (d\<lparr>expenses := save_doc (e'\<lparr>amount := 0\<rparr>) (expenses d)\<rparr>,
              Response 200 (ExpenseDoc (e'\<lparr>amount := 0\<rparr>)))"
proof -
  let ?b0 = "b\<lparr>b_amount := None\<rparr>" and ?b1 = "b\<lparr>b_amount := Some (NumLit 0)\<rparr>"
  from put_expense_ok [OF assms] obtain i e where
    v: "validate_update L ?b0 = []" and i: "castObjectId L idp = Some i"
    and e: "findById (expenses d) i = Some e" and u: "userId e = uid"
    and a: "assign_fields L e (sanitize_expense ?b0) = Some e'" and s: "schema_valid e'"
    by auto
  from v have v1: "validate_update L ?b1 = []"
    by (simp add: validate_update_def isFloat0_def)
  from a have a1: "assign_fields L e (sanitize_expense ?b1) = Some (e'\<lparr>amount := 0\<rparr>)"
    by (auto simp: assign_fields_def sanitize_expense_def cast_number_def split: option.splits if_splits)
  from s have s1: "schema_valid (e'\<lparr>amount := 0\<rparr>)" by (simp add: schema_valid_def)
  from v1 i e u a1 s1 show ?thesis by (simp add: put_expense_def)
qed

lemma put_blank_description:
  assumes "b_description b = Some s" and "trim s = []"
  shows "put_expense L d uid idp b = (d, Response 400 (ValidationErrors (validate_update L b)))"
proof -
  from assms have "validate_update L b \<noteq> []" by (simp add: validate_update_def)
  then show ?thesis by (simp add: put_expense_def)
qed

lemma put_empty_date:
  assumes "b_date b = Some []" and "\<not> isISO8601 L []"
  shows "put_expense L d uid idp b = (d, Response 400 (ValidationErrors (validate_update L b)))"
proof -
  from assms have "validate_update L b \<noteq> []" by (simp add: validate_update_def)
  then show ?thesis by (simp add: put_expense_def)
qed

text \<open>
  C10 (as amended).  In PUT /api/expenses/:id, the body fields other than the amount
  being strings: an amount of 0 is applied, that is, when the update without the
  amount is answered 200 with a document, the same update with the amount 0 is
  answered 200 with that document and the amount 0, and stores it; and whenever an
  update with a numeric amount is answered 200, the stored and returned document has
  that amount.  A category or a payment method that is the empty string is ignored:
  the answer and the database are those of the same request without the field.  A
  description that is empty or blank, and a date that is the empty string (which is
  not an ISO 8601 date), are not ignored: the validation chains reject the request
  with 400 and the validation errors, and nothing is applied, an amount 0 sent with
  it included.  In every case a category, description, date or payment method that
  is the empty string leaves that field of every stored expense as it was.
\<close>

theorem update_zero_and_empty:
  "(handle L E d (PutExpense uid idp (b\<lparr>b_amount := None\<rparr>)) = (d', Response 200 (ExpenseDoc e'))
       \<longrightarrow> handle L E d (PutExpense uid idp (b\<lparr>b_amount := Some (NumLit 0)\<rparr>))
             = (d\<lparr>expenses := save_doc (e'\<lparr>amount := 0\<rparr>) (expenses d)\<rparr>,
                Response 200 (ExpenseDoc (e'\<lparr>amount := 0\<rparr>))))
   \<and> (handle L E d (PutExpense uid idp b) = (d', Response 200 (ExpenseDoc e'))
        \<and> b_amount b = Some (NumLit a) \<longrightarrow> amount e' = a \<and> e' \<in> set (expenses d'))
   \<and> (b_category b = Some [] \<longrightarrow>
        handle L E d (PutExpense uid idp b)
          = handle L E d (PutExpense uid idp (b\<lparr>b_category := None\<rparr>)))
   \<and> (b_paymentMethod b = Some [] \<longrightarrow>
        handle L E d (PutExpense uid idp b)
          = handle L E d (PutExpense uid idp (b\<lparr>b_paymentMethod := None\<rparr>)))
   \<and> (b_description b = Some s \<and> trim s = [] \<longrightarrow>
        handle L E d (PutExpense uid idp b)
          = (d, Response 400 (ValidationErrors (validate_update L b))))
   \<and> (b_date b = Some [] \<and> \<not> isISO8601 L [] \<longrightarrow>
        handle L E d (PutExpense uid idp b)
          = (d, Response 400 (ValidationErrors (validate_update L b))))
   \<and> (handle L E d (PutExpense uid idp b) = (d', r) \<longrightarrow>
        (b_category b = Some [] \<longrightarrow> map category (expenses d') = map category (expenses d))
      \<and> (b_description b = Some [] \<longrightarrow> map description (expenses d') = map description (expenses d))
      \<and> (b_date b = Some [] \<longrightarrow> map date (expenses d') = map date (expenses d))
      \<and> (b_paymentMethod b = Some [] \<longrightarrow>
            map paymentMethod (expenses d') = map paymentMethod (expenses d)))"
proof (intro conjI impI)
  assume "handle L E d (PutExpense uid idp (b\<lparr>b_amount := None\<rparr>)) = (d', Response 200 (ExpenseDoc e'))"
  then have "put_expense L d uid idp (b\<lparr>b_amount := None\<rparr>) = (d', Response 200 (ExpenseDoc e'))"
    by simp
  from put_zero_amount [OF this]
  show "handle L E d (PutExpense uid idp (b\<lparr>b_amount := Some (NumLit 0)\<rparr>))
             = (d\<lparr>expenses := save_doc (e'\<lparr>amount := 0\<rparr>) (expenses d)\<rparr>,
                Response 200 (ExpenseDoc (e'\<lparr>amount := 0\<rparr>)))"
    by simp
next
  assume h: "handle L E d (PutExpense uid idp b) = (d', Response 200 (ExpenseDoc e'))
     \<and> b_amount b = Some (NumLit a)"
  then have p: "put_expense L d uid idp b = (d', Response 200 (ExpenseDoc e'))" by simp
  from put_expense_ok [OF p] obtain i e0 where
    i: "findById (expenses d) i = Some e0" and a: "assign_fields L e0 (sanitize_expense b) = Some e'"
    and d': "d' = d\<lparr>expenses := save_doc e' (expenses d)\<rparr>"
    by auto
  from a h show "amount e' = a"
    by (auto simp: assign_fields_def sanitize_expense_def cast_number_def split: option.splits)
  from i have "e_id e0 = i" by (simp add: findById_Some)
  with a have "e_id e' = i" by (simp add: assign_fields_ids)
  with i d' have "findById (expenses d') i = Some e'" by (simp add: findById_save_doc)
  then show "e' \<in> set (expenses d')" by (simp add: findById_Some)
next
  assume "b_category b = Some []"
  then show "handle L E d (PutExpense uid idp b)
          = handle L E d (PutExpense uid idp (b\<lparr>b_category := None\<rparr>))"
    by (simp add: put_empty_category)
next
  assume "b_paymentMethod b = Some []"
  then show "handle L E d (PutExpense uid idp b)
          = handle L E d (PutExpense uid idp (b\<lparr>b_paymentMethod := None\<rparr>))"
    by (simp add: put_empty_paymentMethod)
next
  assume "b_description b = Some s \<and> trim s = []"
  then show "handle L E d (PutExpense uid idp b)
          = (d, Response 400 (ValidationErrors (validate_update L b)))"
    by (simp add: put_blank_description)
next
  assume "b_date b = Some [] \<and> \<not> isISO8601 L []"
  then show "handle L E d (PutExpense uid idp b)
          = (d, Response 400 (ValidationErrors (validate_update L b)))"
    by (simp add: put_empty_date)
next
  assume "handle L E d (PutExpense uid idp b) = (d', r)" and c: "b_category b = Some []"
  then have p: "put_expense L d uid idp b = (d', r)" by simp
  show "map category (expenses d') = map category (expenses d)"
    by (rule put_expense_frame [OF p]) (simp add: assign_fields_empty c)
next
  assume "handle L E d (PutExpense uid idp b) = (d', r)" and c: "b_description b = Some []"
  then have p: "put_expense L d uid idp b = (d', r)" by simp
  show "map description (expenses d') = map description (expenses d)"
    by (rule put_expense_frame [OF p]) (simp add: assign_fields_empty c)
next
  assume "handle L E d (PutExpense uid idp b) = (d', r)" and c: "b_date b = Some []"
  then have p: "put_expense L d uid idp b = (d', r)" by simp
  show "map date (expenses d') = map date (expenses d)"
    by (rule put_expense_frame [OF p]) (simp add: assign_fields_empty c)
next
  assume "handle L E d (PutExpense uid idp b) = (d', r)" and c: "b_paymentMethod b = Some []"
  then have p: "put_expense L d uid idp b = (d', r)" by simp
  show "map paymentMethod (expenses d') = map paymentMethod (expenses d)"
    by (rule put_expense_frame [OF p]) (simp add: assign_fields_empty c)
qed

text \<open>
  Alice sets the amount of her lunch to 0 next to an empty category and an empty
  payment method: the amount is stored, both fields are kept.  With an empty
  description or an empty date next to the amount 0 the request is rejected.
\<close>

theorem update_zero_and_empty_witness:
  "handle lib0 env0 db0 (PutExpense alice_id (e_id lunch) zero_body)
     = (db0\<lparr>expenses := [lunch\<lparr>amount := 0\<rparr>, taxi, rent, flight, book]\<rparr>,
        Response 200 (ExpenseDoc (lunch\<lparr>amount := 0\<rparr>)))
   \<and> handle lib0 env0 db0 (PutExpense alice_id (e_id lunch) zero_body)
     = handle lib0 env0 db0 (PutExpense alice_id (e_id lunch) (zero_body\<lparr>b_category := None\<rparr>))
   \<and> amount (lunch\<lparr>amount := 0\<rparr>) = 0
   \<and> category (lunch\<lparr>amount := 0\<rparr>) = category lunch
   \<and> paymentMethod (lunch\<lparr>amount := 0\<rparr>) = paymentMethod lunch
   \<and> lunch\<lparr>amount := 0\<rparr> \<in> set [lunch\<lparr>amount := 0\<rparr>, taxi, rent, flight, book]
   \<and> handle lib0 env0 db0 (PutExpense alice_id (e_id lunch) zero_blank)
     = (db0, Response 400 (ValidationErrors [''Description cannot be empty'']))
   \<and> handle lib0 env0 db0 (PutExpense alice_id (e_id lunch) empty_date)
     = (db0, Response 400 (ValidationErrors [''Invalid date format'']))"
proof -
  let ?e = "lunch\<lparr>amount := 0\<rparr>"
  let ?d = "db0\<lparr>expenses := [?e, taxi, rent, flight, book]\<rparr>"
  have h0: "handle lib0 env0 db0 (PutExpense alice_id (e_id lunch) (zero_body\<lparr>b_amount := None\<rparr>))
     = (db0\<lparr>expenses := [lunch, taxi, rent, flight, book]\<rparr>, Response 200 (ExpenseDoc lunch))"
    by code_simp
  have z: "zero_body\<lparr>b_amount := Some (NumLit 0)\<rparr> = zero_body" by code_simp
  have sv: "db0\<lparr>expenses := save_doc ?e (expenses db0)\<rparr> = ?d" by code_simp
  have c: "b_category zero_body = Some []" by code_simp
  have bl: "b_description zero_blank = Some [] \<and> trim [] = []" by code_simp
  have dt: "b_date empty_date = Some [] \<and> \<not> isISO8601 lib0 []" by code_simp
  have v1: "validate_update lib0 zero_blank = [''Description cannot be empty'']" by code_simp
  have v2: "validate_update lib0 empty_date = [''Invalid date format'']" by code_simp
  note T = update_zero_and_empty [where L = lib0 and E = env0 and d = db0 and uid = alice_id
      and idp = "e_id lunch"]
  from T [where b = zero_body and e' = lunch, THEN conjunct1, rule_format, OF h0]
  have h: "handle lib0 env0 db0 (PutExpense alice_id (e_id lunch) zero_body)
     = (?d, Response 200 (ExpenseDoc ?e))"
    by (simp add: z sv)
  note T2 = T [where b = zero_body and d' = "?d" and e' = "?e" and a = 0,
      THEN conjunct2, THEN conjunct1, rule_format]
  note T3 = T [where b = zero_body, THEN conjunct2, THEN conjunct2, THEN conjunct1, rule_format, OF c]
  note T5 = T [where b = zero_blank and s = "[]", THEN conjunct2, THEN conjunct2, THEN conjunct2,
      THEN conjunct2, THEN conjunct1, rule_format, OF bl]
  note T6 = T [where b = empty_date, THEN conjunct2, THEN conjunct2, THEN conjunct2,
      THEN conjunct2, THEN conjunct2, THEN conjunct1, rule_format, OF dt]
  from h T3 T5 T6 show ?thesis by (simp add: v1 v2)
qed

text \<open>
  The claim as stated fails: an empty description is not ignored.  Alice's update of
  her lunch with the amount 0 and an empty description is answered 400, not as the
  update without the description is, and the amount stays 50.
\<close>

theorem update_empty_description_rejected:
  "findById (expenses db0) (e_id lunch) = Some lunch \<and> userId lunch = alice_id
   \<and> b_amount zero_blank = Some (NumLit 0) \<and> b_description zero_blank = Some []
   \<and> handle lib0 env0 db0 (PutExpense alice_id (e_id lunch) zero_blank)
     = (db0, Response 400 (ValidationErrors [''Description cannot be empty'']))
   \<and> handle lib0 env0 db0 (PutExpense alice_id (e_id lunch) zero_blank)
     \<noteq> handle lib0 env0 db0 (PutExpense alice_id (e_id lunch) (zero_blank\<lparr>b_description := None\<rparr>))
   \<and> amount lunch = 50"
  by code_simp

section \<open>Properties of the statistics\<close>

subsection \<open>Sums\<close>

lemma exact_from_foldl: "exact_from acc xs \<Longrightarrow> foldl fadd0 acc xs = acc + sum_list xs"
  by (induction xs arbitrary: acc) (simp_all add: add.assoc)

lemma exact_fsum: "exact xs \<Longrightarrow> fsum xs = sum_list xs"
  using exact_from_foldl [of 0 xs] by (simp add: exact_def fsum_def)

lemma sum_list_sort_key:
  fixes f :: "'a \<Rightarrow> rat"
  shows "sum_list (map f (sort_key k xs)) = sum_list (map f xs)"
proof -
  have "sum_mset (mset (map f (sort_key k xs))) = sum_mset (mset (map f xs))" by simp
  then show ?thesis by (simp only: sum_mset_sum_list)
qed

subsection \<open>Grouping\<close>

lemma keys_add_group:
  "map fst (add_group k a gs) = (if k \<in> fst ` set gs then map fst gs else map fst gs @ [k])"
  by (induction k a gs rule: add_group.induct) auto

lemma keyset_add_group: "fst ` set (add_group k a gs) = insert k (fst ` set gs)"
proof -
  have "set (map fst (add_group k a gs)) = insert k (fst ` set gs)"
    by (auto simp: keys_add_group)
  then show ?thesis by simp
qed

lemma map_of_add_group:
  "map_of (add_group k a gs) k' =
     (if k' = k then Some (case map_of gs k of None \<Rightarrow> [a] | Some as \<Rightarrow> as @ [a])
      else map_of gs k')"
  by (induction k a gs rule: add_group.induct) auto

lemma keys_group_acc:
  "distinct (map fst gs) \<Longrightarrow>
     distinct (map fst (group_acc key gs es))
     \<and> set (map fst (group_acc key gs es)) = fst ` set gs \<union> key ` set es"
proof (induction es arbitrary: gs)
  case Nil
  then show ?case by simp
next
  case (Cons e es)
  from Cons.prems have "distinct (map fst (add_group (key e) (amount e) gs))"
    by (simp add: keys_add_group)
  from Cons.IH [OF this] show ?case
    by (simp add: keyset_add_group)
qed

lemma map_of_group_acc:
  "map_of (group_acc key gs es) k =
     (case map_of gs k of
        None \<Rightarrow> if k \<in> key ` set es then Some (map amount (filter (\<lambda>e. key e = k) es)) else None
      | Some as \<Rightarrow> Some (as @ map amount (filter (\<lambda>e. key e = k) es)))"
proof (induction es arbitrary: gs)
  case Nil
  then show ?case by (simp split: option.splits)
next
  case (Cons e es)
  show ?case
    by (simp add: Cons.IH map_of_add_group split: option.splits)
qed

lemma group_sum_keys:
  "distinct (map fst (group_sum L key es)) \<and> set (map fst (group_sum L key es)) = key ` set es"
proof -
  have "map fst (group_sum L key es) = map fst (group_acc key [] es)"
    by (simp add: group_sum_def case_prod_beta)
  with keys_group_acc [of "[]" key es] show ?thesis by simp
qed

lemma group_sum_entry:
  assumes "(k, t, c) \<in> set (group_sum L key es)"
  shows "t = key_total L key k es \<and> c = key_count key k es"
proof -
  from assms obtain as where m: "(k, as) \<in> set (group_acc key [] es)"
    and t: "t = sum_acc L as" and c: "c = length as"
    by (auto simp: group_sum_def)
  from keys_group_acc [of "[]" key es] have "distinct (map fst (group_acc key [] es))" by simp
  with m have "map_of (group_acc key [] es) k = Some as" by simp
  then have "as = map amount (filter (\<lambda>e. key e = k) es)"
    by (simp add: map_of_group_acc split: if_splits)
  with t c show ?thesis by (simp add: key_total_def key_count_def)
qed

lemma group_sum_Nil: "group_sum L key es = [] \<longleftrightarrow> es = []"
proof
  assume "group_sum L key es = []"
  then have "set (map fst (group_sum L key es)) = {}" by simp
  then have "key ` set es = {}" using group_sum_keys [of L key es] by simp
  then show "es = []" by simp
next
  assume "es = []"
  then show "group_sum L key es = []" by (simp add: group_sum_def)
qed

lemma group_acc_unit:
  "group_acc (\<lambda>e. ()) [((), as)] es = [((), as @ map amount es)]"
  by (induction es arbitrary: as) simp_all

lemma first_total_total_agg:
  "first_total (total_agg L d uid)
     = (if filter (\<lambda>e. userId e = uid) (expenses d) = [] then 0
        else sum_acc L (map amount (filter (\<lambda>e. userId e = uid) (expenses d))))"
proof (cases "filter (\<lambda>e. userId e = uid) (expenses d)")
  case Nil
  then show ?thesis by (simp add: total_agg_def group_sum_def first_total_def)
next
  case (Cons a as)
  then show ?thesis
    by (simp add: total_agg_def group_sum_def first_total_def group_acc_unit)
qed

subsection \<open>The total and the list\<close>

text \<open>
  C5 (as amended).  For every user and every database, the unfiltered
  GET /api/expenses answers 200 with a list that holds exactly the user's expenses,
  and, when this list is not empty, \<open>totalExpenses\<close> of GET /api/expenses/stats is
  the database's \<open>$sum\<close> of their amounts, a double.  It is equal to the exact sum of
  the amounts of the list when that \<open>$sum\<close> is exact, and then also to the sum that
  a program gets by adding the amounts of the list one by one as doubles, when none
  of these additions rounds.  (Otherwise they can differ in the last digits.)  When
  the list is empty, \<open>totalExpenses\<close> is 0 and \<open>byCategory\<close> and \<open>monthlyExpenses\<close>
  are empty.
\<close>

theorem stats_total_and_list:
  "\<exists>xs st. handle L E d (GetExpenses uid no_query) = (d, Response 200 (ExpenseDocs xs))
      \<and> handle L E d (GetStats uid) = (d, Response 200 (StatsDoc st))
      \<and> mset xs = filter_mset (\<lambda>e. userId e = uid) (mset (expenses d))
      \<and> (xs \<noteq> [] \<longrightarrow>
           totalExpenses st = sum_acc L (map amount (filter (\<lambda>e. userId e = uid) (expenses d))))
      \<and> (sum_acc L (map amount (filter (\<lambda>e. userId e = uid) (expenses d)))
            = sum_list (map amount (filter (\<lambda>e. userId e = uid) (expenses d)))
          \<longrightarrow> totalExpenses st = sum_list (map amount xs)
              \<and> (exact (map amount xs) \<longrightarrow> totalExpenses st = fsum (map amount xs)))
      \<and> (xs = [] \<longrightarrow> totalExpenses st = 0 \<and> byCategory st = [] \<and> monthlyExpenses st = [])"
proof -
  let ?own = "filter (\<lambda>e. userId e = uid) (expenses d)"
  let ?xs = "sort_date_desc ?own"
  let ?st = "\<lparr>totalExpenses = first_total (total_agg L d uid), byCategory = category_agg L d uid,
              monthlyExpenses = monthly_agg L (now E) d uid\<rparr>"
  have m: "build_query L uid no_query = Some \<lparr>m_userId = uid, m_description = None,
      m_category = None, m_date_gte = None, m_date_lte = None, m_amount_gte = None,
      m_amount_lte = None\<rparr>"
    by (simp add: build_query_def no_query_def opt_param_def truthy_def)
  have l: "handle L E d (GetExpenses uid no_query) = (d, Response 200 (ExpenseDocs ?xs))"
    by (simp add: get_expenses_def m matches_def [abs_def] holds_def)
  have s: "handle L E d (GetStats uid) = (d, Response 200 (StatsDoc ?st))"
    by (simp add: get_stats_def)
  have p: "mset ?xs = filter_mset (\<lambda>e. userId e = uid) (mset (expenses d))"
    by (simp add: sort_date_desc_def)
  have e: "?xs = [] \<longleftrightarrow> ?own = []"
  proof
    assume "?xs = []"
    then have "mset ?xs = {#}" by simp
    then show "?own = []" by (simp add: sort_date_desc_def)
  next
    assume "?own = []"
    then show "?xs = []" by (simp add: sort_date_desc_def)
  qed
  have t: "?xs \<noteq> [] \<longrightarrow> totalExpenses ?st = sum_acc L (map amount ?own)"
    using e by (simp add: first_total_total_agg)
  have q: "sum_list (map amount ?xs) = sum_list (map amount ?own)"
    by (simp add: sort_date_desc_def sum_list_sort_key)
  have x: "sum_acc L (map amount ?own) = sum_list (map amount ?own)
      \<longrightarrow> totalExpenses ?st = sum_list (map amount ?xs)
        \<and> (exact (map amount ?xs) \<longrightarrow> totalExpenses ?st = fsum (map amount ?xs))"
  proof
    assume a: "sum_acc L (map amount ?own) = sum_list (map amount ?own)"
    have "totalExpenses ?st = sum_list (map amount ?own)"
    proof (cases "?own = []")
      case True
      then show ?thesis by (simp add: first_total_total_agg)
    next
      case False
      with a show ?thesis by (simp add: first_total_total_agg)
    qed
    with q have c: "totalExpenses ?st = sum_list (map amount ?xs)" by simp
    then show "totalExpenses ?st = sum_list (map amount ?xs)
        \<and> (exact (map amount ?xs) \<longrightarrow> totalExpenses ?st = fsum (map amount ?xs))"
      by (simp add: exact_fsum)
  qed
  have z: "?xs = [] \<longrightarrow> totalExpenses ?st = 0 \<and> byCategory ?st = [] \<and> monthlyExpenses ?st = []"
  proof
    assume "?xs = []"
    with e have own: "?own = []" by simp
    then have "recent_expenses L (now E) d uid = []"
      by (auto simp: recent_expenses_def filter_empty_conv)
    with own show "totalExpenses ?st = 0 \<and> byCategory ?st = [] \<and> monthlyExpenses ?st = []"
      by (simp add: first_total_total_agg category_agg_def monthly_agg_def group_sum_def)
  qed
  from l s p t x z show ?thesis by blast
qed

lemma alice_list:
  "handle lib0 env0 db0 (GetExpenses alice_id no_query)
     = (db0, Response 200 (ExpenseDocs [flight, lunch, taxi, book]))"
  by code_simp

lemma alice_stats_response:
  "handle lib0 env0 db0 (GetStats alice_id) = (db0, Response 200 (StatsDoc alice_stats))"
  by code_simp

lemma carol_list:
  "handle lib0 env0 db0 (GetExpenses carol_id no_query) = (db0, Response 200 (ExpenseDocs []))"
  by code_simp

text \<open>
  Alice's four amounts (50, 12.5, 300 and 20) add up without rounding in either
  order, to 382.5; Carol has no expenses.
\<close>

theorem stats_total_and_list_witness:
  "handle lib0 env0 db0 (GetExpenses alice_id no_query)
     = (db0, Response 200 (ExpenseDocs [flight, lunch, taxi, book]))
   \<and> handle lib0 env0 db0 (GetStats alice_id) = (db0, Response 200 (StatsDoc alice_stats))
   \<and> sum_acc lib0 (map amount [lunch, taxi, flight, book]) = 765 / 2
   \<and> exact (map amount [flight, lunch, taxi, book])
   \<and> totalExpenses alice_stats = 765 / 2
   \<and> sum_list (map amount [flight, lunch, taxi, book]) = 765 / 2
   \<and> fsum (map amount [flight, lunch, taxi, book]) = 765 / 2
   \<and> handle lib0 env0 db0 (GetExpenses carol_id no_query) = (db0, Response 200 (ExpenseDocs []))
   \<and> handle lib0 env0 db0 (GetStats carol_id)
     = (db0, Response 200 (StatsDoc \<lparr>totalExpenses = 0, byCategory = [], monthlyExpenses = []\<rparr>))"
proof -
  have o: "filter (\<lambda>e. userId e = alice_id) (expenses db0) = [lunch, taxi, flight, book]"
    by code_simp
  have n: "[flight, lunch, taxi, book] \<noteq> []" by simp
  have a0: "sum_acc lib0 (map amount [lunch, taxi, flight, book]) = 765 / 2" by code_simp
  have a1: "sum_acc lib0 (map amount [lunch, taxi, flight, book])
      = sum_list (map amount [lunch, taxi, flight, book])" by code_simp
  have e2: "exact (map amount [flight, lunch, taxi, book])" by code_simp
  from stats_total_and_list [of lib0 env0 db0 alice_id] alice_list alice_stats_response o n a0 a1 e2
  have a: "totalExpenses alice_stats = 765 / 2
      \<and> totalExpenses alice_stats = sum_list (map amount [flight, lunch, taxi, book])
      \<and> totalExpenses alice_stats = fsum (map amount [flight, lunch, taxi, book])"
    by auto
  from stats_total_and_list [of lib0 env0 db0 carol_id] carol_list
  obtain st where "handle lib0 env0 db0 (GetStats carol_id) = (db0, Response 200 (StatsDoc st))"
    and "totalExpenses st = 0 \<and> byCategory st = [] \<and> monthlyExpenses st = []"
    by auto
  then have c: "handle lib0 env0 db0 (GetStats carol_id)
     = (db0, Response 200 (StatsDoc \<lparr>totalExpenses = 0, byCategory = [], monthlyExpenses = []\<rparr>))"
    by (cases st) simp
  from a have "sum_list (map amount [flight, lunch, taxi, book]) = 765 / 2
      \<and> fsum (map amount [flight, lunch, taxi, book]) = 765 / 2"
    by simp
  with a c a0 e2 alice_list alice_stats_response carol_list show ?thesis by simp
qed

text \<open>
  The claim as stated fails: with the amounts 0.3, 0.2 and 0.1 stored in this order,
  \<open>totalExpenses\<close> is the double 0.6, which is also the double nearest to the exact
  sum; the list has them latest first, as 0.1, 0.2 and 0.3, and adding its amounts
  one by one gives (0.1 + 0.2) + 0.3, the double 0.6000000000000001.  The exact sum
  of the three doubles is not a double, and so is not \<open>totalExpenses\<close> either.
\<close>

theorem stats_total_differs_from_list_sum:
  "handle lib0 env0 db_cents (GetExpenses alice_id no_query)
     = (db_cents, Response 200 (ExpenseDocs [coffee, tea, cake]))
   \<and> handle lib0 env0 db_cents (GetStats alice_id) = (db_cents, Response 200 (StatsDoc cents_stats))
   \<and> totalExpenses cents_stats = 5404319552844595 / 9007199254740992
   \<and> fsum (map amount [coffee, tea, cake]) = 1351079888211149 / 2251799813685248
   \<and> sum_list (map amount [coffee, tea, cake]) = 21617278211378381 / 36028797018963968
   \<and> round53 (sum_list (map amount [coffee, tea, cake])) = 5404319552844595 / 9007199254740992
   \<and> totalExpenses cents_stats \<noteq> fsum (map amount [coffee, tea, cake])
   \<and> totalExpenses cents_stats \<noteq> sum_list (map amount [coffee, tea, cake])"
  by code_simp

subsection \<open>Expenses by month\<close>

lemma distinct_keys_sort_key:
  "distinct (map f (sort_key k xs)) = distinct (map f xs)"
proof -
  have "mset (map f (sort_key k xs)) = mset (map f xs)" by simp
  then show ?thesis by (rule mset_eq_imp_distinct_iff)
qed

lemma pair_less_iff:
  fixes a b :: "int \<times> nat"
  shows "a < b \<longleftrightarrow> fst a < fst b \<or> (fst a = fst b \<and> snd a < snd b)"
  by (cases a; cases b) auto

text \<open>
  What the handler computes for \<open>monthlyExpenses\<close>.  It takes the requester's
  expenses dated at or after \<open>sixMonthsAgo\<close>, the request time with its month moved
  back by six (\<open>setMonth(getMonth() - 6)\<close>), and groups them by the year and month
  (UTC) of their date: the keys of the result are exactly the months in which such
  an expense falls, each entry reports the database's sum of the amounts and the
  number of the expenses of its month, and the entries are in strictly ascending
  order of year, then month.
\<close>

theorem monthly_expenses_grouped:
  "\<exists>st. handle L E d (GetStats uid) = (d, Response 200 (StatsDoc st))
     \<and> set (recent_expenses L (now E) d uid)
         = {e \<in> set (expenses d). userId e = uid \<and> sixMonthsAgo L (now E) \<le> date e}
     \<and> fst ` set (monthlyExpenses st) = month_key ` set (recent_expenses L (now E) d uid)
     \<and> sorted_wrt (\<lambda>a b. fst a < fst b \<or> (fst a = fst b \<and> snd a < snd b))
          (map fst (monthlyExpenses st))
     \<and> (\<forall>g \<in> set (monthlyExpenses st).
           fst (snd g) = key_total L month_key (fst g) (recent_expenses L (now E) d uid)
         \<and> snd (snd g) = key_count month_key (fst g) (recent_expenses L (now E) d uid))"
proof -
  let ?R = "recent_expenses L (now E) d uid"
  let ?G = "group_sum L month_key ?R"
  let ?M = "sort_key fst ?G"
  let ?st = "\<lparr>totalExpenses = first_total (total_agg L d uid), byCategory = category_agg L d uid,
              monthlyExpenses = ?M\<rparr>"
  have h: "handle L E d (GetStats uid) = (d, Response 200 (StatsDoc ?st))"
    by (simp add: get_stats_def monthly_agg_def)
  have r: "set ?R = {e \<in> set (expenses d). userId e = uid \<and> sixMonthsAgo L (now E) \<le> date e}"
    by (auto simp: recent_expenses_def)
  have k: "fst ` set ?M = month_key ` set ?R"
    using group_sum_keys [of L month_key ?R] by simp
  have "sorted (map fst ?M)" by (rule sorted_sort_key)
  moreover have "distinct (map fst ?M)"
    using group_sum_keys [of L month_key ?R] by (simp add: distinct_keys_sort_key)
  ultimately have "sorted_wrt (<) (map fst ?M)" by (simp add: strict_sorted_iff)
  then have s: "sorted_wrt (\<lambda>a b. fst a < fst b \<or> (fst a = fst b \<and> snd a < snd b)) (map fst ?M)"
    by (rule sorted_wrt_mono_rel [rotated]) (simp add: pair_less_iff)
  have g: "\<forall>g \<in> set ?M. fst (snd g) = key_total L month_key (fst g) ?R
         \<and> snd (snd g) = key_count month_key (fst g) ?R"
  proof
    fix g assume "g \<in> set ?M"
    then have "(fst g, fst (snd g), snd (snd g)) \<in> set ?G" by simp
    then show "fst (snd g) = key_total L month_key (fst g) ?R
         \<and> snd (snd g) = key_count month_key (fst g) ?R"
      by (rule group_sum_entry)
  qed
  from h r k s g show ?thesis by (intro exI [of _ ?st]) simp
qed

text \<open>
  On 2024-06-15 the cut-off is 2023-12-15: of Alice's expenses the book of November
  2023 is left out, and March 2024, June 2024 and January 2025 are reported.
\<close>

theorem monthly_expenses_grouped_witness:
  "handle lib0 env0 db0 (GetStats alice_id) = (db0, Response 200 (StatsDoc alice_stats))
   \<and> monthlyExpenses alice_stats = [((2024, 3), 25 / 2, 1), ((2024, 6), 50, 1), ((2025, 1), 300, 1)]
   \<and> sixMonthsAgo lib0 (now env0) = 1702598400000
   \<and> recent_expenses lib0 (now env0) db0 alice_id = [lunch, taxi, flight]
   \<and> map month_key [lunch, taxi, flight] = [(2024, 6), (2024, 3), (2025, 1)]
   \<and> sorted_wrt (\<lambda>a b. fst a < fst b \<or> (fst a = fst b \<and> snd a < snd b))
        (map fst (monthlyExpenses alice_stats))"
proof -
  have m: "monthlyExpenses alice_stats = [((2024, 3), 25 / 2, 1), ((2024, 6), 50, 1), ((2025, 1), 300, 1)]"
    by code_simp
  have c: "sixMonthsAgo lib0 (now env0) = 1702598400000" by code_simp
  have r: "recent_expenses lib0 (now env0) db0 alice_id = [lunch, taxi, flight]" by code_simp
  have k: "map month_key [lunch, taxi, flight] = [(2024, 6), (2024, 3), (2025, 1)]" by code_simp
  from monthly_expenses_grouped [of lib0 env0 db0 alice_id] alice_stats_response
  have "sorted_wrt (\<lambda>a b. fst a < fst b \<or> (fst a = fst b \<and> snd a < snd b))
        (map fst (monthlyExpenses alice_stats))"
    by auto
  with m c r k alice_stats_response show ?thesis by simp
qed

text \<open>
  C8.  The claim is that \<open>monthlyExpenses\<close> includes only expenses dated within the
  six months before the request, which is also what the handler's comment says
  ("Monthly expenses (last 6 months)") and what the dashboard relies on when it
  shows the last entry as "This Month".  The \<open>$match\<close> stage has the lower bound
  only.  Here the request is made on 2024-06-15 and the flight is dated 2025-01-20,
  after the request: it is counted, as the entry of January 2025.
\<close>

theorem monthly_includes_future_expense:
  "flight \<in> set (expenses db0) \<and> userId flight = alice_id
   \<and> now env0 < date flight
   \<and> month_key flight = (2025, 1)
   \<and> handle lib0 env0 db0 (GetStats alice_id) = (db0, Response 200 (StatsDoc alice_stats))
   \<and> ((2025, 1), 300, 1) \<in> set (monthlyExpenses alice_stats)"
  by code_simp

section \<open>Properties of the expense list\<close>

lemma opt_param_parses:
  "parses f x \<Longrightarrow> opt_param f x = Some (if truthy x then f (str_of x) else None)"
  by (auto simp: parses_def opt_param_def truthy_def str_of_def split: option.splits)

lemma opt_param_fails:
  "\<not> parses f x \<Longrightarrow> opt_param f x = None"
  by (auto simp: parses_def opt_param_def truthy_def str_of_def split: option.splits)

lemma opt_param_regex:
  assumes "regex_literal L" and "truthy x \<longrightarrow> plain (str_of x)"
  shows "opt_param (regexI L) x = Some (if truthy x then Some (ci_contains (str_of x)) else None)"
  using assms
  by (auto simp: regex_literal_def opt_param_def truthy_def str_of_def split: option.splits)

lemma holds_if: "holds P (if c then f else None) = (c \<longrightarrow> holds P f)"
  by (simp add: holds_def)

lemma holds_parsed: "holds P (f :: 'a option) = (case f of None \<Rightarrow> True | Some v \<Rightarrow> P v)"
  by (simp add: holds_def)

lemma build_query_wanted:
  assumes "regex_literal L" and "truthy (q_search q) \<longrightarrow> plain (str_of (q_search q))"
    and "parses (newDate L) (q_startDate q)" and "parses (newDate L) (q_endDate q)"
    and "parses (parseFloat L) (q_minAmount q)" and "parses (parseFloat L) (q_maxAmount q)"
  shows "\<exists>m. build_query L uid q = Some m \<and> (\<forall>e. matches m e = wanted L uid q e)"
proof -
  let ?m = "\<lparr>m_userId = uid,
      m_description = (if truthy (q_search q) then Some (ci_contains (str_of (q_search q))) else None),
      m_category = (if truthy (q_category q) then q_category q else None),
      m_date_gte = (if truthy (q_startDate q) then newDate L (str_of (q_startDate q)) else None),
      m_date_lte = (if truthy (q_endDate q) then newDate L (str_of (q_endDate q)) else None),
      m_amount_gte = (if truthy (q_minAmount q) then parseFloat L (str_of (q_minAmount q)) else None),
      m_amount_lte = (if truthy (q_maxAmount q) then parseFloat L (str_of (q_maxAmount q)) else None)\<rparr>"
  have b: "build_query L uid q = Some ?m"
    by (simp add: build_query_def opt_param_regex [OF assms(1,2)] opt_param_parses assms)
  have p: "truthy x \<Longrightarrow> parses f x \<Longrightarrow> holds P (f (str_of x)) = (\<exists>v. f (str_of x) = Some v \<and> P v)"
    for x and f :: "string \<Rightarrow> 'b option" and P
    by (auto simp: parses_def holds_def split: option.splits)
  have "matches ?m e = wanted L uid q e" for e
    using assms(3-6) by (simp add: matches_def wanted_def holds_if p)
      (auto simp: holds_def truthy_def str_of_def split: option.splits)
  with b show ?thesis by blast
qed


lemma sort_date_desc_sorted: "sorted_wrt (\<lambda>a b. date b \<le> date a) (sort_date_desc es)"
proof -
  have "sorted (map (\<lambda>e. - date e) (sort_key (\<lambda>e. - date e) es))" by (rule sorted_sort_key)
  then show ?thesis by (simp add: sort_date_desc_def sorted_map)
qed

lemma match_here_prefix:
  "CHR ''.'' \<notin> set p \<Longrightarrow> match_here p s = prefix (lower p) (lower s)"
  by (induction p s rule: match_here.induct) (auto simp: lower_def)

lemma search_from_sublist:
  "CHR ''.'' \<notin> set p \<Longrightarrow> search_from p s = sublist (lower p) (lower s)"
proof (induction s)
  case Nil
  then show ?case by (cases p) (simp_all add: lower_def)
next
  case (Cons c s)
  then show ?case
    using match_here_prefix [of p "c # s"]
    by (simp add: lower_def sublist_Cons_right)
qed

lemma regex_literal_lib0: "regex_literal lib0"
proof -
  have "regexI lib0 p = Some (ci_contains p)" if "plain p" for p
  proof -
    from that have m: "\<forall>c \<in> set p. c \<notin> set metachars" by (simp add: plain_def list_all_iff)
    then have dot: "CHR ''.'' \<notin> set p" by (auto simp: metachars_def)
    from m have "regex0 p = Some (search_from p)" by (auto simp: regex0_def list_ex_iff)
    moreover from dot have "search_from p = ci_contains p"
      by (intro ext) (simp add: search_from_sublist ci_contains_def)
    ultimately show ?thesis by (simp add: lib0_def)
  qed
  then show ?thesis by (simp add: regex_literal_def)
qed

text \<open>
  C4 (as amended).  Let the database match a search text without metacharacters as
  that literal text.  For every GET /api/expenses whose search parameter, if not
  empty, has no regular-expression metacharacter and whose non-empty date and amount
  bounds can be read (\<open>new Date\<close> gives a valid date, \<open>parseFloat\<close> a number),
  the answer is 200 with exactly the requester's expenses that meet every filter
  supplied with a non-empty value -- the search text contained in the description
  whatever the letter case, the category equal, the date between the bounds and the
  amount between the bounds, bounds included -- each as often as it is stored, and
  with the later date first.  When a non-empty bound cannot be read the answer is
  500.  (A search text with metacharacters is used as a pattern; what it matches is
  left open here.)
\<close>

theorem list_filters_and_order:
  assumes "regex_literal L"
  shows "(  (truthy (q_search q) \<longrightarrow> plain (str_of (q_search q)))
          \<and> parses (newDate L) (q_startDate q) \<and> parses (newDate L) (q_endDate q)
          \<and> parses (parseFloat L) (q_minAmount q) \<and> parses (parseFloat L) (q_maxAmount q)
          \<longrightarrow> (\<exists>xs. handle L E d (GetExpenses uid q) = (d, Response 200 (ExpenseDocs xs))
                 \<and> mset xs = filter_mset (wanted L uid q) (mset (expenses d))
                 \<and> sorted_wrt (\<lambda>a b. date b \<le> date a) xs))
       \<and> (\<not> (parses (newDate L) (q_startDate q) \<and> parses (newDate L) (q_endDate q)
              \<and> parses (parseFloat L) (q_minAmount q) \<and> parses (parseFloat L) (q_maxAmount q))
          \<longrightarrow> handle L E d (GetExpenses uid q) = (d, Response 500 (Message ''Server error'')))"
proof (intro conjI impI)
  assume a: "(truthy (q_search q) \<longrightarrow> plain (str_of (q_search q)))
          \<and> parses (newDate L) (q_startDate q) \<and> parses (newDate L) (q_endDate q)
          \<and> parses (parseFloat L) (q_minAmount q) \<and> parses (parseFloat L) (q_maxAmount q)"
  with assms build_query_wanted [of L q uid] obtain m where
    m: "build_query L uid q = Some m" and w: "\<And>e. matches m e = wanted L uid q e"
    by blast
  let ?xs = "sort_date_desc (filter (matches m) (expenses d))"
  from m have "handle L E d (GetExpenses uid q) = (d, Response 200 (ExpenseDocs ?xs))"
    by (simp add: get_expenses_def)
  moreover have "mset ?xs = filter_mset (wanted L uid q) (mset (expenses d))"
    by (simp add: sort_date_desc_def w [abs_def] cong: filter_mset_cong)
  moreover have "sorted_wrt (\<lambda>a b. date b \<le> date a) ?xs" by (rule sort_date_desc_sorted)
  ultimately show "\<exists>xs. handle L E d (GetExpenses uid q) = (d, Response 200 (ExpenseDocs xs))
                 \<and> mset xs = filter_mset (wanted L uid q) (mset (expenses d))
                 \<and> sorted_wrt (\<lambda>a b. date b \<le> date a) xs"
    by blast
next
  assume "\<not> (parses (newDate L) (q_startDate q) \<and> parses (newDate L) (q_endDate q)
              \<and> parses (parseFloat L) (q_minAmount q) \<and> parses (parseFloat L) (q_maxAmount q))"
  then have "build_query L uid q = None"
    by (auto simp: build_query_def opt_param_fails split: option.splits)
  then show "handle L E d (GetExpenses uid q) = (d, Response 500 (Message ''Server error''))"
    by (simp add: get_expenses_def server_error_def)
qed


text \<open>
  Alice lists her expenses with every filter set, with a lower amount bound alone,
  and with a start date that is no date.
\<close>

theorem list_filters_and_order_witness:
  "handle lib0 env0 db0 (GetExpenses alice_id all_filters)
     = (db0, Response 200 (ExpenseDocs [lunch]))
   \<and> mset [lunch] = filter_mset (wanted lib0 alice_id all_filters) (mset (expenses db0))
   \<and> handle lib0 env0 db0 (GetExpenses alice_id min_only)
     = (db0, Response 200 (ExpenseDocs [flight, lunch, book]))
   \<and> mset [flight, lunch, book] = filter_mset (wanted lib0 alice_id min_only) (mset (expenses db0))
   \<and> sorted_wrt (\<lambda>a b. date b \<le> date a) [flight, lunch, book]
   \<and> handle lib0 env0 db0 (GetExpenses alice_id (no_query\<lparr>q_startDate := Some ''yesterday''\<rparr>))
     = (db0, Response 500 (Message ''Server error''))"
proof -
  let ?bad = "no_query\<lparr>q_startDate := Some ''yesterday''\<rparr>"
  have h1: "handle lib0 env0 db0 (GetExpenses alice_id all_filters)
     = (db0, Response 200 (ExpenseDocs [lunch]))" by code_simp
  have h2: "handle lib0 env0 db0 (GetExpenses alice_id min_only)
     = (db0, Response 200 (ExpenseDocs [flight, lunch, book]))" by code_simp
  have p1: "(truthy (q_search all_filters) \<longrightarrow> plain (str_of (q_search all_filters)))
          \<and> parses (newDate lib0) (q_startDate all_filters) \<and> parses (newDate lib0) (q_endDate all_filters)
          \<and> parses (parseFloat lib0) (q_minAmount all_filters)
          \<and> parses (parseFloat lib0) (q_maxAmount all_filters)" by code_simp
  have p2: "(truthy (q_search min_only) \<longrightarrow> plain (str_of (q_search min_only)))
          \<and> parses (newDate lib0) (q_startDate min_only) \<and> parses (newDate lib0) (q_endDate min_only)
          \<and> parses (parseFloat lib0) (q_minAmount min_only)
          \<and> parses (parseFloat lib0) (q_maxAmount min_only)" by code_simp
  have p3: "\<not> (parses (newDate lib0) (q_startDate ?bad) \<and> parses (newDate lib0) (q_endDate ?bad)
          \<and> parses (parseFloat lib0) (q_minAmount ?bad)
          \<and> parses (parseFloat lib0) (q_maxAmount ?bad))" by code_simp
  note T = list_filters_and_order [OF regex_literal_lib0]
  from T [of all_filters env0 db0 alice_id, THEN conjunct1, rule_format, OF p1] h1
  have a: "mset [lunch] = filter_mset (wanted lib0 alice_id all_filters) (mset (expenses db0))"
    by auto
  from T [of min_only env0 db0 alice_id, THEN conjunct1, rule_format, OF p2] h2
  have b: "mset [flight, lunch, book] = filter_mset (wanted lib0 alice_id min_only) (mset (expenses db0))
      \<and> sorted_wrt (\<lambda>a b. date b \<le> date a) [flight, lunch, book]"
    by auto
  note c = T [of ?bad env0 db0 alice_id, THEN conjunct2, rule_format, OF p3]
  from h1 h2 a b c show ?thesis by simp
qed

text \<open>
  The claim as stated fails: the search text \<open>a.c\<close> is run as a pattern and finds
  the lunch, whose description does not contain it; and with the lower bound \<open>abc\<close>
  there is no result set, the answer is 500.
\<close>

theorem list_search_is_pattern:
  "handle lib0 env0 db0 (GetExpenses alice_id (no_query\<lparr>q_search := Some ''a.c''\<rparr>))
     = (db0, Response 200 (ExpenseDocs [lunch]))
   \<and> description lunch = ''Lunch at ABC''
   \<and> \<not> ci_contains ''a.c'' (description lunch)
   \<and> handle lib0 env0 db0 (GetExpenses alice_id (no_query\<lparr>q_minAmount := Some ''abc''\<rparr>))
     = (db0, Response 500 (Message ''Server error''))"
  by code_simp

section \<open>Properties of the profile routes\<close>

lemma find_user_Some: "find_user us i = Some u \<Longrightarrow> u \<in> set us \<and> u_id u = i"
  unfolding find_user_def by (induction us) (auto split: if_splits)

lemma find_user_save_user:
  "find_user us i = Some u \<Longrightarrow> u_id v = i \<Longrightarrow> find_user (save_user v us) i = Some v"
  unfolding find_user_def by (induction us) (auto split: if_splits)

lemma findOne_email_found: "lower a \<in> email ` set us \<Longrightarrow> findOne_email us a \<noteq> None"
  by (auto simp: findOne_email_def find_None_iff)

lemma profile_json_keys:
  "set (map fst (profile_json v)) \<subseteq> {''_id'', ''name'', ''email'', ''bio'', ''phone'', ''avatar''}
   \<and> ''password'' \<notin> set (map fst (profile_json v))"
  by (auto simp: profile_json_def opt_field_def split: option.splits)

text \<open>
  C6 (as amended).  Every PUT /api/users/profile whose body fails the route's
  validation chains is answered 400 with the validation errors, and the database is
  returned as it was.  For every PUT /api/users/profile of a stored requester whose
  body passes the validation chains and whose email is not empty, differs from the
  requester's stored email as sent and is, once converted to lower case, the email
  of a stored user, the answer is 400 with the message "Email already in use", and
  the database is returned as it was.  For every profile update that is answered
  200, the body of the answer is made of the saved document's \<open>_id\<close>, \<open>name\<close>,
  \<open>email\<close>, \<open>bio\<close>, \<open>phone\<close> and \<open>avatar\<close> and of nothing else: it has no
  \<open>password\<close> key.
\<close>

theorem profile_update_email_and_fields:
  "(validate_profile L b \<noteq> []
      \<longrightarrow> handle L E d (PutProfile uid b) = (d, Response 400 (ValidationErrors (validate_profile L b))))
   \<and> (validate_profile L b = [] \<and> find_user (users d) uid = Some u \<and> p_email b = Some a
      \<and> a \<noteq> [] \<and> a \<noteq> email u \<and> lower a \<in> email ` set (users d)
      \<longrightarrow> handle L E d (PutProfile uid b) = (d, Response 400 (Message ''Email already in use'')))
   \<and> (handle L E d (PutProfile uid b) = (d', r) \<and> status r = 200
      \<longrightarrow> (\<exists>v. r = Response 200 (Object (profile_json v)) \<and> find_user (users d') uid = Some v
            \<and> set (map fst (profile_json v)) \<subseteq> {''_id'', ''name'', ''email'', ''bio'', ''phone'', ''avatar''}
            \<and> ''password'' \<notin> set (map fst (profile_json v))))"
proof (intro conjI impI)
  assume "validate_profile L b \<noteq> []"
  then show "handle L E d (PutProfile uid b)
      = (d, Response 400 (ValidationErrors (validate_profile L b)))"
    by (simp add: put_profile_def)
next
  assume a: "validate_profile L b = [] \<and> find_user (users d) uid = Some u \<and> p_email b = Some a
      \<and> a \<noteq> [] \<and> a \<noteq> email u \<and> lower a \<in> email ` set (users d)"
  then have "findOne_email (users d) a \<noteq> None" by (simp add: findOne_email_found)
  with a show "handle L E d (PutProfile uid b) = (d, Response 400 (Message ''Email already in use''))"
    by (simp add: put_profile_def sanitize_profile_def truthy_def str_of_def)
next
  assume a: "handle L E d (PutProfile uid b) = (d', r) \<and> status r = 200"
  then have p: "put_profile L d uid b = (d', r)" and s: "status r = 200" by simp_all
  from p s have v: "validate_profile L b = []"
    by (auto simp: put_profile_def split: if_splits)
  from p s v obtain u where u: "find_user (users d) uid = Some u"
    by (cases "find_user (users d) uid") (auto simp: put_profile_def)
  let ?v = "assign_profile u (sanitize_profile b)"
  from p s v u have r: "r = Response 200 (Object (profile_json ?v))"
    and d': "d' = d\<lparr>users := save_user ?v (users d)\<rparr>"
    by (auto simp: put_profile_def Let_def status_server_error split: if_splits)
  from u have "u_id u = uid" by (simp add: find_user_Some)
  then have "u_id ?v = uid" by (simp add: assign_profile_def)
  with u d' have f: "find_user (users d') uid = Some ?v" by (simp add: find_user_save_user)
  from r f profile_json_keys [of ?v]
  show "\<exists>v. r = Response 200 (Object (profile_json v)) \<and> find_user (users d') uid = Some v
            \<and> set (map fst (profile_json v)) \<subseteq> {''_id'', ''name'', ''email'', ''bio'', ''phone'', ''avatar''}
            \<and> ''password'' \<notin> set (map fst (profile_json v))"
    by blast
qed

text \<open>
  Alice sends a blank name; she asks for Bob's email; she sends her own email in
  capitals, which is looked up in lower case and found to be hers; and she changes
  her bio and takes a new email, which is stored in lower case.
\<close>

theorem profile_update_email_and_fields_witness:
  "handle lib0 env0 db0 (PutProfile alice_id blank_name)
     = (db0, Response 400 (ValidationErrors [''Name cannot be empty'']))
   \<and> handle lib0 env0 db0 (PutProfile alice_id take_bobs_email)
     = (db0, Response 400 (Message ''Email already in use''))
   \<and> handle lib0 env0 db0 (PutProfile alice_id own_email_upper)
     = (db0, Response 400 (Message ''Email already in use''))
   \<and> handle lib0 env0 db0 (PutProfile alice_id new_bio)
     = (db0\<lparr>users := [alice\<lparr>email := ''alice@example.org'', bio := Some ''Runner''\<rparr>, bob]\<rparr>,
        Response 200 (Object [(''_id'', alice_id), (''name'', ''Alice''),
          (''email'', ''alice@example.org''), (''bio'', ''Runner'')]))
   \<and> ''password'' \<notin> set (map fst [(''_id'', alice_id), (''name'', ''Alice''),
          (''email'', ''alice@example.org''), (''bio'', ''Runner'')])"
proof -
  let ?d' = "db0\<lparr>users := [alice\<lparr>email := ''alice@example.org'', bio := Some ''Runner''\<rparr>, bob]\<rparr>"
  let ?o = "[(''_id'', alice_id), (''name'', ''Alice''), (''email'', ''alice@example.org''),
     (''bio'', ''Runner'')]"
  have h0: "validate_profile lib0 blank_name \<noteq> []" by code_simp
  have v0: "validate_profile lib0 blank_name = [''Name cannot be empty'']" by code_simp
  have h1: "validate_profile lib0 take_bobs_email = [] \<and> find_user (users db0) alice_id = Some alice
      \<and> p_email take_bobs_email = Some ''bob@example.com''
      \<and> ''bob@example.com'' \<noteq> [] \<and> ''bob@example.com'' \<noteq> email alice
      \<and> lower ''bob@example.com'' \<in> email ` set (users db0)" by code_simp
  have h1': "validate_profile lib0 own_email_upper = [] \<and> find_user (users db0) alice_id = Some alice
      \<and> p_email own_email_upper = Some ''Alice@Example.com''
      \<and> ''Alice@Example.com'' \<noteq> [] \<and> ''Alice@Example.com'' \<noteq> email alice
      \<and> lower ''Alice@Example.com'' \<in> email ` set (users db0)" by code_simp
  have h2: "handle lib0 env0 db0 (PutProfile alice_id new_bio) = (?d', Response 200 (Object ?o))"
    by code_simp
  have h3: "status (Response 200 (Object ?o)) = 200" by simp
  from profile_update_email_and_fields [where L = lib0 and E = env0 and d = db0
      and uid = alice_id and b = blank_name, THEN conjunct1, rule_format, OF h0] v0
  have Z: "handle lib0 env0 db0 (PutProfile alice_id blank_name)
     = (db0, Response 400 (ValidationErrors [''Name cannot be empty'']))"
    by simp
  note A = profile_update_email_and_fields [where L = lib0 and E = env0 and d = db0
      and uid = alice_id and b = take_bobs_email and u = alice and a = "''bob@example.com''",
      THEN conjunct2, THEN conjunct1, rule_format, OF h1]
  note A' = profile_update_email_and_fields [where L = lib0 and E = env0 and d = db0
      and uid = alice_id and b = own_email_upper and u = alice and a = "''Alice@Example.com''",
      THEN conjunct2, THEN conjunct1, rule_format, OF h1']
  from profile_update_email_and_fields [where L = lib0 and E = env0 and d = db0
      and uid = alice_id and b = new_bio and d' = ?d' and r = "Response 200 (Object ?o)",
      THEN conjunct2, THEN conjunct2, rule_format, OF conjI [OF h2 h3]]
  have B: "''password'' \<notin> set (map fst ?o)" by auto
  from Z A A' B h2 show ?thesis by simp
qed

text \<open>
  The claim as stated fails: with a blank name next to Bob's email the answer is
  400 with the validation errors, not with the message "Email already in use".
\<close>

theorem profile_invalid_name_with_taken_email:
  "find_user (users db0) alice_id = Some alice
   \<and> p_email blank_name = Some ''bob@example.com''
   \<and> ''bob@example.com'' \<noteq> email alice
   \<and> email bob = ''bob@example.com'' \<and> bob \<in> set (users db0)
   \<and> handle lib0 env0 db0 (PutProfile alice_id blank_name)
       = (db0, Response 400 (ValidationErrors [''Name cannot be empty'']))
   \<and> snd (handle lib0 env0 db0 (PutProfile alice_id blank_name))
       \<noteq> Response 400 (Message ''Email already in use'')"
  by code_simp

text \<open>
  C9.  For every GET /api/users/profile of a user that is stored, the answer is 200
  with the stored document as \<open>User.findById\<close> loads it: every field of the record
  is in the body under its key, the \<open>password\<close> hash among them; nothing is taken
  out.
\<close>

theorem profile_returns_stored_record:
  assumes "find_user (users d) uid = Some u"
  shows "handle L E d (GetProfile uid) = (d, Response 200 (Object (user_doc u)))
       \<and> map_of (user_doc u) ''_id'' = Some (u_id u)
       \<and> map_of (user_doc u) ''name'' = Some (name u)
       \<and> map_of (user_doc u) ''email'' = Some (email u)
       \<and> map_of (user_doc u) ''password'' = Some (password u)
       \<and> map_of (user_doc u) ''bio'' = bio u
       \<and> map_of (user_doc u) ''phone'' = phone u
       \<and> map_of (user_doc u) ''avatar'' = avatar u"
  using assms by (simp add: get_profile_def user_doc_def opt_field_def split: option.splits)

text \<open>Alice reads her profile.\<close>

theorem profile_returns_stored_record_witness:
  "handle lib0 env0 db0 (GetProfile alice_id)
     = (db0, Response 200 (Object [(''_id'', alice_id), (''name'', ''Alice''),
          (''email'', ''alice@example.com''), (''password'', ''$2a$10$hashA''), (''bio'', ''Engineer'')]))
   \<and> map_of (user_doc alice) ''password'' = Some ''$2a$10$hashA''"
proof -
  have f: "find_user (users db0) alice_id = Some alice" by code_simp
  have u: "user_doc alice = [(''_id'', alice_id), (''name'', ''Alice''),
     (''email'', ''alice@example.com''), (''password'', ''$2a$10$hashA''), (''bio'', ''Engineer'')]"
    by code_simp
  have p: "password alice = ''$2a$10$hashA''" by code_simp
  from profile_returns_stored_record [OF f, of lib0 env0] u p show ?thesis by simp
qed

section \<open>The stored documents\<close>

text \<open>
  No request leads out of the well-formed databases: a create adds a document that
  has passed the schema under a new id, an update replaces a document by one that
  has passed it under the same id, a delete takes one document away.  The sample
  database is well-formed.
\<close>

lemma findById_None: "findById es i = None \<Longrightarrow> i \<notin> e_id ` set es"
  unfolding findById_def by (induction es) (auto split: if_splits)

lemma ids_save_doc: "map e_id (save_doc e' es) = map e_id es"
  by (induction es) auto

lemma list_all_save_doc: "P e' \<Longrightarrow> list_all P es \<Longrightarrow> list_all P (save_doc e' es)"
  by (induction es) auto

lemma set_deleteOne: "set (deleteOne i es) \<subseteq> set es"
  by (induction es) auto

lemma distinct_deleteOne: "distinct (map e_id es) \<Longrightarrow> distinct (map e_id (deleteOne i es))"
proof (induction es)
  case Nil
  then show ?case by simp
next
  case (Cons a es)
  then show ?case using set_deleteOne [of i es] by auto
qed

lemma list_all_deleteOne: "list_all P es \<Longrightarrow> list_all P (deleteOne i es)"
  by (induction es) auto

lemma trim_Nil: "trim [] = []"
  by (simp add: trim_def)

lemma new_expense_trimmed:
  "new_expense L E uid (sanitize_expense b) = Some e \<Longrightarrow> trim (description e) = description e"
  by (auto simp: new_expense_def sanitize_expense_def str_of_def trim_idem trim_Nil
      split: option.splits if_splits)

lemma assign_fields_trimmed:
  "assign_fields L e (sanitize_expense b) = Some e' \<Longrightarrow> trim (description e) = description e
     \<Longrightarrow> trim (description e') = description e'"
  by (auto simp: assign_fields_def sanitize_expense_def str_or_def trim_idem
      split: option.splits if_splits)

lemma post_expense_cases:
  assumes "post_expense L E d uid b = (d', r)"
  shows "d' = d \<or> (\<exists>e. new_expense L E uid (sanitize_expense b) = Some e \<and> schema_valid e
           \<and> findById (expenses d) (e_id e) = None \<and> d' = d\<lparr>expenses := expenses d @ [e]\<rparr>)"
proof (cases "validate_create L b = []")
  case False
  with assms show ?thesis by (simp add: post_expense_def)
next
  case True
  show ?thesis
  proof (cases "new_expense L E uid (sanitize_expense b)")
    case None
    with True assms show ?thesis by (simp add: post_expense_def)
  next
    case (Some e)
    with True assms show ?thesis by (simp add: post_expense_def split: if_splits)
  qed
qed

lemma post_expense_wf:
  assumes "wf_db d" and "post_expense L E d uid b = (d', r)"
  shows "wf_db d'"
proof -
  from post_expense_cases [OF assms(2)] show ?thesis
  proof
    assume "d' = d"
    with assms(1) show ?thesis by simp
  next
    assume "\<exists>e. new_expense L E uid (sanitize_expense b) = Some e \<and> schema_valid e
           \<and> findById (expenses d) (e_id e) = None \<and> d' = d\<lparr>expenses := expenses d @ [e]\<rparr>"
    then obtain e where e: "new_expense L E uid (sanitize_expense b) = Some e"
      and v: "schema_valid e" and f: "findById (expenses d) (e_id e) = None"
      and d': "d' = d\<lparr>expenses := expenses d @ [e]\<rparr>"
      by blast
    from f have "e_id e \<notin> e_id ` set (expenses d)" by (rule findById_None)
    moreover from e v have "stored_ok e" by (simp add: stored_ok_def new_expense_trimmed)
    ultimately show ?thesis using assms(1) d' by (simp add: wf_db_def)
  qed
qed

lemma put_expense_unchanged:
  assumes "put_expense L d uid idp b = (d', r)" and "status r \<noteq> 200"
  shows "d' = d"
proof (cases "validate_update L b = []")
  case False
  with assms show ?thesis by (simp add: put_expense_def)
next
  case True
  note v = this
  show ?thesis
  proof (cases "castObjectId L idp")
    case None
    with v assms show ?thesis by (simp add: put_expense_def)
  next
    case (Some i)
    note i = this
    show ?thesis
    proof (cases "findById (expenses d) i")
      case None
      with v i assms show ?thesis by (simp add: put_expense_def)
    next
      case (Some e)
      note e = this
      show ?thesis
      proof (cases "assign_fields L e (sanitize_expense b)")
        case None
        with v i e assms show ?thesis by (simp add: put_expense_def split: if_splits)
      next
        case (Some e')
        with v i e assms show ?thesis by (auto simp: put_expense_def split: if_splits)
      qed
    qed
  qed
qed

lemma put_expense_wf:
  assumes "wf_db d" and "put_expense L d uid idp b = (d', r)"
  shows "wf_db d'"
proof (cases "status r = 200")
  case True
  from put_expense_ok [OF assms(2) True] obtain i e e' where
    e: "findById (expenses d) i = Some e" and a: "assign_fields L e (sanitize_expense b) = Some e'"
    and v: "schema_valid e'" and d': "d' = d\<lparr>expenses := save_doc e' (expenses d)\<rparr>"
    by blast
  from e have "e \<in> set (expenses d)" by (simp add: findById_Some)
  with assms(1) have "trim (description e) = description e"
    by (simp add: wf_db_def list_all_iff stored_ok_def)
  with a v have "stored_ok e'" by (simp add: stored_ok_def assign_fields_trimmed)
  with assms(1) d' show ?thesis by (simp add: wf_db_def ids_save_doc list_all_save_doc)
next
  case False
  with assms(2) have "d' = d" by (rule put_expense_unchanged)
  with assms(1) show ?thesis by simp
qed

lemma delete_expense_cases:
  assumes "delete_expense L d uid idp = (d', r)"
  shows "d' = d \<or> (\<exists>i. d' = d\<lparr>expenses := deleteOne i (expenses d)\<rparr>)"
proof (cases "castObjectId L idp")
  case None
  with assms show ?thesis by (simp add: delete_expense_def)
next
  case (Some i)
  note i = this
  show ?thesis
  proof (cases "findById (expenses d) i")
    case None
    with i assms show ?thesis by (simp add: delete_expense_def)
  next
    case (Some e)
    with i assms show ?thesis by (auto simp: delete_expense_def split: if_splits)
  qed
qed

lemma delete_expense_wf:
  assumes "wf_db d" and "delete_expense L d uid idp = (d', r)"
  shows "wf_db d'"
proof -
  from delete_expense_cases [OF assms(2)] show ?thesis
  proof
    assume "d' = d"
    with assms(1) show ?thesis by simp
  next
    assume "\<exists>i. d' = d\<lparr>expenses := deleteOne i (expenses d)\<rparr>"
    then obtain i where "d' = d\<lparr>expenses := deleteOne i (expenses d)\<rparr>" by blast
    with assms(1) show ?thesis
      by (simp add: wf_db_def distinct_deleteOne list_all_deleteOne)
  qed
qed

lemma put_profile_expenses:
  assumes "put_profile L d uid b = (d', r)"
  shows "expenses d' = expenses d"
proof (cases "validate_profile L b = []")
  case False
  with assms show ?thesis by (simp add: put_profile_def)
next
  case True
  note v = this
  show ?thesis
  proof (cases "find_user (users d) uid")
    case None
    with v assms show ?thesis by (simp add: put_profile_def)
  next
    case (Some u)
    with v assms show ?thesis by (auto simp: put_profile_def Let_def split: if_splits)
  qed
qed

theorem handle_preserves_wf:
  assumes "wf_db d" and "handle L E d req = (d', r)"
  shows "wf_db d'"
proof (cases req)
  case (PutProfile uid b)
  with assms(2) have "expenses d' = expenses d" by (simp add: put_profile_expenses)
  with assms(1) show ?thesis by (simp add: wf_db_def)
next
  case (PostExpense uid b)
  with assms show ?thesis by (simp add: post_expense_wf)
next
  case (PutExpense uid idp b)
  with assms show ?thesis by (simp add: put_expense_wf)
next
  case (DeleteExpense uid idp)
  with assms show ?thesis by (simp add: delete_expense_wf)
next
  case (GetProfile uid)
  with assms show ?thesis by simp
next
  case (GetExpenses uid q)
  with assms show ?thesis by simp
next
  case (GetStats uid)
  with assms show ?thesis by simp
next
  case (GetExpense uid idp)
  with assms show ?thesis by simp
qed

lemma wf_db0: "wf_db db0"
  by code_simp

end
